theory Spec2Isabelle
  imports Main "HOL-Library.AList" "HOL-Library.Multiset" "HOL-Library.Word"
begin

section \<open>The ONNX importer for Relax (onnx\_frontend.py)\<close>

text \<open>
  The Python exceptions the importer raises are values of \<open>error\<close>; a function that
  can raise returns \<open>error + 'a\<close> with \<open>Inl\<close> for the exception. The
  payload is the fixed part of the message (for OpNotImplemented, the operator names).
  ExternalError stands for whatever an external collaborator raises.
\<close>

datatype error =
    ValueError string
  | NotImplementedError string
  | OpNotImplemented "string list"
  | AssertionError string
  | KeyError string
  | IndexError string
  | AttributeError string
  | TypeError string
  | ExternalError string

subsection \<open>Python lists\<close>

text \<open>
  \<open>xs[i]\<close> on a Python list: a negative index counts from the end, an index
  outside \<open>-len \<le> i < len\<close> raises IndexError.
\<close>

definition py_getitem :: "'a list \<Rightarrow> int \<Rightarrow> error + 'a" where
  "py_getitem xs i =
     (if 0 \<le> i \<and> i < int (length xs) then Inr (xs ! nat i)
      else if i < 0 \<and> - int (length xs) \<le> i then Inr (xs ! nat (int (length xs) + i))
      else Inl (IndexError ''list index out of range''))"

text \<open>\<open>max(xs)\<close>: ValueError on the empty list.\<close>

fun py_max :: "int list \<Rightarrow> error + int" where
  "py_max [] = Inl (ValueError ''max() arg is an empty sequence'')"
| "py_max (x # xs) = Inr (fold max xs x)"

subsection \<open>OnnxOpConverter.get\_converter\<close>

text \<open>
  A converter class is represented by \<open>ds\<close>, the list that line 149 computes: the
  numbers N of its methods named \<open>_impl_vN\<close>. The method returned is represented by
  its number N; \<open>hasattr(cls, "_impl_vN")\<close> is membership of N in \<open>ds\<close>.
  Lines 150 to 156:
  \<^verbatim>\<open>
    versions = sorted(versions + [opset])
    version = versions[max([i for i, v in enumerate(versions) if v == opset]) - 1]
    if hasattr(cls, "_impl_v{}".format(version)):
        return getattr(cls, "_impl_v{}".format(version))
    raise NotImplementedError(...)
  \<close>
\<close>

definition get_converter :: "int list \<Rightarrow> int \<Rightarrow> error + int" where
  "get_converter ds opset =
     (let versions = sort (ds @ [opset]) in
      case py_max (map (\<lambda>p. int (fst p))
                    (filter (\<lambda>p. snd p = opset) (enumerate 0 versions))) of
        Inl e \<Rightarrow> Inl e
      | Inr m \<Rightarrow>
          (case py_getitem versions (m - 1) of
             Inl e \<Rightarrow> Inl e
           | Inr version \<Rightarrow>
               if version \<in> set ds then Inr version
               else Inl (NotImplementedError ''opset version not implemented'')))"

subsection \<open>onnx\_input\<close>

text \<open>
  \<open>onnx_input\<close> is a list whose elements are values or None; an element is an
  \<open>'a option\<close>. The integer branch of \<open>__getitem__\<close> (line 123):
  \<^verbatim>\<open>return list(self)[item] if item < len(self) else None\<close>
  The slice branch is not used by the code modelled here.
\<close>

definition onnx_input_getitem :: "'a option list \<Rightarrow> int \<Rightarrow> error + 'a option" where
  "onnx_input_getitem self item =
     (if item < int (length self) then py_getitem self item else Inr None)"

subsection \<open>The protobuf messages\<close>

text \<open>
  A 32-bit float is kept as its bit pattern; no arithmetic is done on it. A nested
  GraphProto is kept as opaque bytes: nothing in the importer looks inside one. Only the
  fields the importer reads are kept. An optional scalar field is an option:
  \<open>HasField\<close> is \<open>\<noteq> None\<close>.
\<close>

type_synonym float32 = "32 word"

record tensor_proto =
  t_name :: string
  t_dims :: "int list"
  t_data_type :: int
  t_raw_data :: string

record attribute_proto =
  a_name :: string
  a_f :: "float32 option"
  a_i :: "int option"
  a_s :: "string option"
  a_g :: "string option"
  a_t :: "tensor_proto option"
  a_floats :: "float32 list"
  a_ints :: "int list"
  a_strings :: "string list"
  a_tensors :: "tensor_proto list"
  a_graphs :: "string list"

record node_proto =
  n_name :: string
  n_op_type :: string
  n_input :: "string list"
  n_output :: "string list"
  n_attribute :: "attribute_proto list"

text \<open>A dimension of a ValueInfoProto: \<open>(dim_param, dim_value)\<close>.\<close>

record value_info_proto =
  vi_name :: string
  vi_dims :: "(string \<times> int) list"
  vi_elem_type :: int

record graph_proto =
  g_node :: "node_proto list"
  g_input :: "value_info_proto list"
  g_output :: "value_info_proto list"
  g_initializer :: "tensor_proto list"

text \<open>An entry of \<open>opset_import\<close>: \<open>(domain, version)\<close>.\<close>

record model_proto =
  m_ir_version :: int
  m_opset_import :: "(string \<times> int) list"
  m_graph :: graph_proto

subsection \<open>Values of the importer\<close>

text \<open>
  A numpy array: dtype name, shape, and the elements in row-major order (the arrays the
  converters read are the integer tensors that hold shapes, repeats and slice bounds).
  What numpy computes from an array is the environment's.
\<close>

datatype ndarray = NDArray (arr_dtype: string) (arr_shape: "int list") (arr_data: "int list")

text \<open>A dimension of a variable: a number, or \<open>tvm.tir.Var("dyn", "int64")\<close>.\<close>

datatype dim = DimValue int | DimDyn

text \<open>
  Relax expressions: \<open>relax.Constant\<close>, \<open>relax.Var\<close> (name, shape, dtype),
  \<open>relax.Tuple\<close>, \<open>relax.TupleGetItem\<close>, and any operator call.
\<close>

datatype expr =
    Constant ndarray
  | Var string "dim list" "string option"
  | Tuple "expr list"
  | TupleGetItem expr nat
  | Call string "expr list"

fun is_Constant :: "expr option \<Rightarrow> bool" where
  "is_Constant (Some (Constant a)) = True"
| "is_Constant _ = False"

fun is_Var :: "expr \<Rightarrow> bool" where
  "is_Var (Var n sh dt) = True"
| "is_Var _ = False"

fun is_Tuple :: "expr \<Rightarrow> bool" where
  "is_Tuple (Tuple fs) = True"
| "is_Tuple _ = False"

text \<open>
  The value of an attribute in the dict built by \<open>_parse_attr\<close>: the Python object
  read from the populated field. \<open>VCustom name num_outputs\<close> is the dict stored under
  \<open>"tvm_custom"\<close>.
\<close>

datatype attr_value =
    VFloat float32
  | VInt int
  | VBytes string
  | VGraph string
  | VTensor tensor_proto
  | VFloats "float32 list"
  | VInts "int list"
  | VStrings "string list"
  | VTensors "tensor_proto list"
  | VCustom string nat

text \<open>
  A Python dict is an association list: \<open>map_of\<close> looks a key up,
  \<open>AList.update\<close> assigns (a key already present keeps its position, a new key goes
  to the end, as in Python).
\<close>

type_synonym attrs = "(string \<times> attr_value) list"

text \<open>
  What \<open>ndarray.tolist()\<close> returns for an integer array: a number for a
  0-dimensional array, a list of numbers for a 1-dimensional one, nested lists beyond.
\<close>

datatype pyval = PyInt int | PyList "pyval list"

text \<open>An argument passed to \<open>bb.emit_te\<close>.\<close>

datatype te_arg = ArgExpr "expr option" | ArgVal pyval | ArgKw string te_arg

subsection \<open>External collaborators\<close>

text \<open>
  What the importer calls and this file does not define: the onnx helpers, numpy, the
  name supply, the block builder, the struct-info queries, the converters whose bodies
  are not modelled, and the whole Relay branch of \<open>_convert_operator\<close> (version
  resolution of the Relay class, input adapter, Relay converter, output adapter). They are
  the fields of an environment; every theorem holds for every environment. \<open>'bb\<close> is
  the state of the block builder, \<open>'ns\<close> of the name supply, \<open>'m\<close> an IRModule. A
  call on the block builder returns the builder with its result, also when it raises.
\<close>

record ('bb, 'ns, 'm) env =
  to_array :: "attr_value \<Rightarrow> error + ndarray"
  np_reshape :: "ndarray \<Rightarrow> int list \<Rightarrow> error + ndarray"
  np_tolist :: "ndarray \<Rightarrow> pyval"
  prod_quotient :: "int list \<Rightarrow> int \<Rightarrow> int"
  np_type :: "int \<Rightarrow> string option"
  new_name_supply :: 'ns
  fresh_name :: "'ns \<Rightarrow> string \<Rightarrow> string \<times> 'ns"
  new_block_builder :: 'bb
  bb_enter_main :: "'bb \<Rightarrow> 'bb"
  bb_normalize :: "'bb \<Rightarrow> expr option \<Rightarrow> (error + expr) \<times> 'bb"
  bb_emit :: "'bb \<Rightarrow> expr \<Rightarrow> (error + expr) \<times> 'bb"
  bb_emit_te :: "'bb \<Rightarrow> string \<Rightarrow> te_arg list \<Rightarrow> (error + expr option) \<times> 'bb"
  bb_emit_output :: "'bb \<Rightarrow> expr \<Rightarrow> (error + expr) \<times> 'bb"
  bb_emit_func_output :: "'bb \<Rightarrow> expr \<Rightarrow> expr list \<Rightarrow> (error + unit) \<times> 'bb"
  bb_get :: "'bb \<Rightarrow> 'm"
  tuple_fields :: "expr \<Rightarrow> nat option"
  static_shape :: "expr option \<Rightarrow> error + int list"
  other_impl :: "string \<Rightarrow> int \<Rightarrow> 'bb \<Rightarrow> expr option list \<Rightarrow> attrs
                 \<Rightarrow> (error + expr option) \<times> 'bb"
  relay_impl :: "string \<Rightarrow> int \<Rightarrow> 'bb \<Rightarrow> expr option list \<Rightarrow> attrs
                 \<Rightarrow> (error + expr option) \<times> 'bb"

text \<open>\<open>get_numpy\<close> (lines 102 to 108) hands its argument to \<open>to_array\<close>.\<close>

definition get_numpy :: "('bb, 'ns, 'm) env \<Rightarrow> attr_value \<Rightarrow> error + ndarray" where
  "get_numpy E tensor = to_array E tensor"

subsection \<open>ONNXGraphImporter.\_parse\_attr\<close>

text \<open>
  Lines 1321 to 1323: the scalar fields f, i, s, g in this order, each assigned when
  present (a later one overwrites an earlier one).
\<close>

definition parse_scalar_fields :: "attrs \<Rightarrow> attribute_proto \<Rightarrow> attrs" where
  "parse_scalar_fields attrs a =
     (let attrs1 = (case a_f a of None \<Rightarrow> attrs
                    | Some v \<Rightarrow> AList.update (a_name a) (VFloat v) attrs);
          attrs2 = (case a_i a of None \<Rightarrow> attrs1
                    | Some v \<Rightarrow> AList.update (a_name a) (VInt v) attrs1);
          attrs3 = (case a_s a of None \<Rightarrow> attrs2
                    | Some v \<Rightarrow> AList.update (a_name a) (VBytes v) attrs2)
      in (case a_g a of None \<Rightarrow> attrs3
          | Some v \<Rightarrow> AList.update (a_name a) (VGraph v) attrs3))"

text \<open>
  A repeated field (lines 1325 to 1327 and 1332 to 1334): when the list is not empty,
  assert that the name is not yet a key, then assign the tuple. \<open>populated\<close> is True
  when the list is not empty.
\<close>

definition parse_repeated_field ::
  "attrs \<Rightarrow> string \<Rightarrow> bool \<Rightarrow> attr_value \<Rightarrow> error + attrs" where
  "parse_repeated_field attrs name populated v =
     (if populated then
        (if map_of attrs name \<noteq> None
         then Inl (AssertionError ''Only one type of attr is allowed'')
         else Inr (AList.update name v attrs))
      else Inr attrs)"

text \<open>The body of the loop over the attributes (lines 1321 to 1339).\<close>

definition parse_attr_one :: "attrs \<Rightarrow> attribute_proto \<Rightarrow> error + attrs" where
  "parse_attr_one attrs a =
     (case parse_repeated_field (parse_scalar_fields attrs a) (a_name a)
             (a_floats a \<noteq> []) (VFloats (a_floats a)) of
        Inl e \<Rightarrow> Inl e
      | Inr attrs1 \<Rightarrow>
     (case parse_repeated_field attrs1 (a_name a) (a_ints a \<noteq> []) (VInts (a_ints a)) of
        Inl e \<Rightarrow> Inl e
      | Inr attrs2 \<Rightarrow>
     (case parse_repeated_field attrs2 (a_name a)
             (a_strings a \<noteq> []) (VStrings (a_strings a)) of
        Inl e \<Rightarrow> Inl e
      | Inr attrs3 \<Rightarrow>
     (case parse_repeated_field
             (case a_t a of None \<Rightarrow> attrs3
              | Some v \<Rightarrow> AList.update (a_name a) (VTensor v) attrs3)
             (a_name a) (a_tensors a \<noteq> []) (VTensors (a_tensors a)) of
        Inl e \<Rightarrow> Inl e
      | Inr attrs4 \<Rightarrow>
          if a_graphs a \<noteq> []
          then Inl (NotImplementedError ''Field graphs is not supported in relax.'')
          else if map_of attrs4 (a_name a) = None
          then Inl (ValueError ''Cannot parse attribute'')
          else Inr attrs4))))"

fun parse_attr_loop :: "attrs \<Rightarrow> attribute_proto list \<Rightarrow> error + attrs" where
  "parse_attr_loop attrs [] = Inr attrs"
| "parse_attr_loop attrs (a # as) =
     (case parse_attr_one attrs a of
        Inl e \<Rightarrow> Inl e
      | Inr attrs' \<Rightarrow> parse_attr_loop attrs' as)"

definition parse_attr :: "attribute_proto list \<Rightarrow> error + attrs" where
  "parse_attr attr_proto = parse_attr_loop [] attr_proto"

subsection \<open>Converters\<close>

text \<open>
  A converter takes the block builder, the inputs and the attribute dict and returns a
  Python value (None is possible: \<open>inputs[0]\<close> of an absent input) or raises.
\<close>

type_synonym 'bb converter_result = "(error + expr option) \<times> 'bb"

text \<open>
  \<open>Reshape._impl_v13\<close> (lines 297 to 322). \<open>new_shape\<close> is what numpy's
  \<open>tolist\<close> returns. \<open>-1 in new_shape\<close> needs a list, the loop of lines 313 to 315
  compares each element with 0 (a nested list cannot be compared) and multiplies Python
  integers. \<open>int(_np.prod(data_shape) / new_product)\<close> is numpy's product and float
  division: the environment's \<open>prod_quotient\<close>.
\<close>

fun py_contains :: "pyval \<Rightarrow> int \<Rightarrow> error + bool" where
  "py_contains (PyList xs) v = Inr (PyInt v \<in> set xs)"
| "py_contains (PyInt x) v = Inl (TypeError ''argument of type int is not iterable'')"

fun py_elements :: "pyval \<Rightarrow> pyval list" where
  "py_elements (PyList xs) = xs"
| "py_elements (PyInt x) = []"

fun positive_product :: "pyval list \<Rightarrow> int \<Rightarrow> error + int" where
  "positive_product [] new_product = Inr new_product"
| "positive_product (PyInt dim # rest) new_product =
     positive_product rest (if dim > 0 then new_product * dim else new_product)"
| "positive_product (PyList xs # rest) new_product =
     Inl (TypeError ''> not supported between instances of list and int'')"

definition Reshape_impl_v13 ::
  "('bb, 'ns, 'm) env \<Rightarrow> 'bb \<Rightarrow> expr option list \<Rightarrow> attrs \<Rightarrow> 'bb converter_result" where
  "Reshape_impl_v13 E bb inputs attr =
     (case onnx_input_getitem inputs 0 of
        Inl e \<Rightarrow> (Inl e, bb)
      | Inr data \<Rightarrow>
     (case onnx_input_getitem inputs 1 of
        Inl e \<Rightarrow> (Inl e, bb)
      | Inr (Some (Constant arr)) \<Rightarrow>
          (case py_contains (np_tolist E arr) (-1) of
             Inl e \<Rightarrow> (Inl e, bb)
           | Inr False \<Rightarrow>
               bb_emit_te E bb ''topi.reshape'' [ArgExpr data, ArgVal (np_tolist E arr)]
           | Inr True \<Rightarrow>
               (if count_list (py_elements (np_tolist E arr)) (PyInt (-1)) \<noteq> 1
                then (Inl (ValueError ''Reshape with multiple -1 is not supported.''), bb)
                else (case static_shape E data of
                        Inl e \<Rightarrow> (Inl e, bb)
                      | Inr data_shape \<Rightarrow>
                          (case positive_product (py_elements (np_tolist E arr)) 1 of
                             Inl e \<Rightarrow> (Inl e, bb)
                           | Inr new_product \<Rightarrow>
                               bb_emit_te E bb ''topi.reshape''
                                 [ArgExpr data,
                                  ArgVal (PyList
                                    (map (\<lambda>dim. if dim = PyInt (-1)
                                                 then PyInt (prod_quotient E data_shape new_product)
                                                 else dim)
                                         (py_elements (np_tolist E arr))))]))))
      | Inr _ \<Rightarrow> (Inr data, bb)))"

text \<open>\<open>Tile._impl_v13\<close> (lines 734 to 740).\<close>

definition Tile_impl_v13 ::
  "('bb, 'ns, 'm) env \<Rightarrow> 'bb \<Rightarrow> expr option list \<Rightarrow> attrs \<Rightarrow> 'bb converter_result" where
  "Tile_impl_v13 E bb inputs attr =
     (case onnx_input_getitem inputs 1 of
        Inl e \<Rightarrow> (Inl e, bb)
      | Inr (Some (Constant arr)) \<Rightarrow>
          (case onnx_input_getitem inputs 0 of
             Inl e \<Rightarrow> (Inl e, bb)
           | Inr data \<Rightarrow>
               bb_emit_te E bb ''topi.tile'' [ArgExpr data, ArgVal (np_tolist E arr)])
      | Inr _ \<Rightarrow> (Inl (ValueError ''Dynamic reps for Tile are supported yet.''), bb))"

text \<open>
  \<open>Slice._impl_v13\<close> (lines 669 to 694). A parameter passes the check when it is a
  Constant or None; \<open>starts.data\<close> and \<open>ends.data\<close> on None raise AttributeError.
  \<open>len\<close> of a value that is not a list raises TypeError.
\<close>

fun const_or_none :: "expr option \<Rightarrow> bool" where
  "const_or_none None = True"
| "const_or_none (Some (Constant a)) = True"
| "const_or_none (Some _) = False"

definition const_tolist :: "('bb, 'ns, 'm) env \<Rightarrow> expr option \<Rightarrow> error + pyval" where
  "const_tolist E param =
     (case param of
        Some (Constant a) \<Rightarrow> Inr (np_tolist E a)
      | _ \<Rightarrow> Inl (AttributeError ''data''))"

fun py_len :: "pyval \<Rightarrow> error + nat" where
  "py_len (PyList xs) = Inr (length xs)"
| "py_len (PyInt x) = Inl (TypeError ''object of type int has no len()'')"

definition Slice_impl_v13 ::
  "('bb, 'ns, 'm) env \<Rightarrow> 'bb \<Rightarrow> expr option list \<Rightarrow> attrs \<Rightarrow> 'bb converter_result" where
  "Slice_impl_v13 E bb inputs attr =
     (case onnx_input_getitem inputs 0 of Inl e \<Rightarrow> (Inl e, bb) | Inr data \<Rightarrow>
     (case onnx_input_getitem inputs 1 of Inl e \<Rightarrow> (Inl e, bb) | Inr starts \<Rightarrow>
     (case onnx_input_getitem inputs 2 of Inl e \<Rightarrow> (Inl e, bb) | Inr ends \<Rightarrow>
     (case onnx_input_getitem inputs 3 of Inl e \<Rightarrow> (Inl e, bb) | Inr axes \<Rightarrow>
     (case onnx_input_getitem inputs 4 of Inl e \<Rightarrow> (Inl e, bb) | Inr steps \<Rightarrow>
        if \<not> list_all const_or_none [starts, ends, axes, steps]
        then (Inl (ValueError ''Only constant Slice parameters are currently supported.''), bb)
        else
          (case const_tolist E starts of Inl e \<Rightarrow> (Inl e, bb) | Inr starts_l \<Rightarrow>
          (case const_tolist E ends of Inl e \<Rightarrow> (Inl e, bb) | Inr ends_l \<Rightarrow>
          (case (if axes \<noteq> None then const_tolist E axes
                 else (case py_len starts_l of
                         Inl e \<Rightarrow> Inl e
                       | Inr n \<Rightarrow> Inr (PyList (map (\<lambda>i. PyInt (int i)) [0..<n])))) of
             Inl e \<Rightarrow> (Inl e, bb)
           | Inr axes_l \<Rightarrow>
          (case (if steps \<noteq> None then const_tolist E steps
                 else (case py_len axes_l of
                         Inl e \<Rightarrow> Inl e
                       | Inr n \<Rightarrow> Inr (PyList (replicate n (PyInt 1))))) of
             Inl e \<Rightarrow> (Inl e, bb)
           | Inr steps_l \<Rightarrow>
               bb_emit_te E bb ''topi.strided_slice''
                 [ArgExpr data, ArgVal starts_l, ArgVal ends_l,
                  ArgKw ''strides'' (ArgVal steps_l), ArgKw ''axes'' (ArgVal axes_l)])))))))))"

text \<open>
  \<open>Constant._impl_v13\<close> (lines 494 to 507). \<open>_np.asarray([0]).astype("int64")\<close> is
  the int64 array of shape (1,) holding 0; \<open>relax.const\<close> wraps the array. The dict
  that \<open>attr.pop\<close> changes is not read again after the converter returns.
\<close>

definition Constant_impl_v13 ::
  "('bb, 'ns, 'm) env \<Rightarrow> 'bb \<Rightarrow> expr option list \<Rightarrow> attrs \<Rightarrow> 'bb converter_result" where
  "Constant_impl_v13 E bb inputs attr =
     (case map_of attr ''value'' of
        None \<Rightarrow> (Inl (ValueError ''no value in Constant''), bb)
      | Some value \<Rightarrow>
          (case (case value of
                   VBytes b \<Rightarrow> Inr (NDArray ''int64'' [1] [0])
                 | _ \<Rightarrow> get_numpy E value) of
             Inl e \<Rightarrow> (Inl e, bb)
           | Inr np_value \<Rightarrow> (Inr (Some (Constant np_value)), bb)))"

text \<open>\<open>Identity._impl_v1\<close> (line 924).\<close>

definition Identity_impl_v1 ::
  "('bb, 'ns, 'm) env \<Rightarrow> 'bb \<Rightarrow> expr option list \<Rightarrow> attrs \<Rightarrow> 'bb converter_result" where
  "Identity_impl_v1 E bb inputs attr =
     (case onnx_input_getitem inputs 0 of
        Inl e \<Rightarrow> (Inl e, bb)
      | Inr data \<Rightarrow> (Inr data, bb))"

subsection \<open>The converter map\<close>

text \<open>
  \<open>_get_convert_map\<close> (lines 1024 to 1095), in the order of the source. A class
  defined in this file is \<open>Native\<close>; a class taken from
  \<open>relay.frontend.onnx\<close> is \<open>Relay\<close>.
\<close>

datatype conv_class = Native string | Relay string

definition get_convert_map :: "(string \<times> conv_class) list" where
  "get_convert_map =
     [
      (''MatMul'', Relay ''MatMul''),
      (''Concat'', Native ''Concat''),
      (''Add'', Native ''Add''),
      (''Mul'', Native ''Mul''),
      (''Cast'', Native ''Cast''),
      (''Gather'', Native ''Gather''),
      (''Gemm'', Native ''Gemm''),
      (''Reshape'', Native ''Reshape''),
      (''Div'', Native ''Div''),
      (''Sigmoid'', Native ''Sigmoid''),
      (''Softmax'', Native ''Softmax''),
      (''Transpose'', Native ''Transpose''),
      (''Unsqueeze'', Native ''Unsqueeze''),
      (''Gelu'', Native ''Gelu''),
      (''BiasGelu'', Native ''BiasGelu''),
      (''Where'', Native ''Where''),
      (''Clip'', Native ''Clip''),
      (''Equal'', Native ''Equal''),
      (''Shape'', Native ''Shape''),
      (''Not'', Native ''Not''),
      (''Tanh'', Native ''Tanh''),
      (''Sqrt'', Native ''Sqrt''),
      (''Relu'', Native ''Relu''),
      (''Conv'', Relay ''Conv''),
      (''Pow'', Native ''Pow''),
      (''Erf'', Native ''Erf''),
      (''CumSum'', Native ''CumSum''),
      (''Squeeze'', Native ''Squeeze''),
      (''Constant'', Native ''Constant''),
      (''Sub'', Native ''Sub''),
      (''Sin'', Native ''Sin''),
      (''Cos'', Native ''Cos''),
      (''Neg'', Native ''Neg''),
      (''Abs'', Native ''Abs''),
      (''Min'', Native ''Min''),
      (''Max'', Native ''Max''),
      (''Log'', Native ''Log''),
      (''Less'', Native ''Less''),
      (''LessOrEqual'', Native ''LessOrEqual''),
      (''LayerNormalization'', Relay ''LayerNormalization''),
      (''SkipLayerNormalization'', Relay ''SkipLayerNormalization''),
      (''EmbedLayerNormalization'', Relay ''EmbedLayerNormalization''),
      (''InstanceNormalization'', Relay ''InstanceNorm''),
      (''ReduceMax'', Relay ''ReduceMax''),
      (''ReduceMin'', Relay ''ReduceMin''),
      (''ReduceSum'', Relay ''ReduceSum''),
      (''ReduceMean'', Relay ''ReduceMean''),
      (''ReduceProd'', Relay ''ReduceProd''),
      (''ReduceLogSumExp'', Relay ''ReduceLogSumExp''),
      (''ReduceLogSum'', Relay ''ReduceLogSum''),
      (''ReduceSumSquare'', Relay ''ReduceSumSquare''),
      (''ReduceL1'', Relay ''ReduceL1''),
      (''ReduceL2'', Relay ''ReduceL2''),
      (''Expand'', Native ''Expand''),
      (''ConstantOfShape'', Native ''ConstantOfShape''),
      (''Slice'', Native ''Slice''),
      (''Attention'', Native ''Attention''),
      (''Pad'', Native ''Pad''),
      (''Split'', Native ''Split''),
      (''Tile'', Native ''Tile''),
      (''BatchNormalization'', Relay ''BatchNorm''),
      (''GlobalAveragePool'', Relay ''GlobalAveragePool''),
      (''Flatten'', Relay ''Flatten''),
      (''MaxPool'', Relay ''MaxPool''),
      (''Identity'', Native ''Identity''),
      (''Resize'', Native ''Resize''),
      (''Einsum'', Native ''Einsum''),
      (''Range'', Native ''Range'')
     ]"

text \<open>
  The classes of this file with the numbers N of their \<open>_impl_vN\<close> methods, as
  \<open>dir\<close> lists them.
\<close>

definition impl_versions :: "(string \<times> int list) list" where
  "impl_versions =
     [
      (''MatMul'', [13]),
      (''Div'', [14]),
      (''Sigmoid'', [13]),
      (''Softmax'', [13]),
      (''Transpose'', [13]),
      (''Unsqueeze'', [13]),
      (''Concat'', [13]),
      (''Add'', [13]),
      (''Mul'', [13]),
      (''Cast'', [13]),
      (''Gather'', [13]),
      (''Gemm'', [13]),
      (''Reshape'', [13]),
      (''Gelu'', [1]),
      (''BiasGelu'', [1]),
      (''Where'', [16]),
      (''Clip'', [13]),
      (''Equal'', [13]),
      (''Shape'', [13]),
      (''Not'', [13]),
      (''Tanh'', [13]),
      (''Sqrt'', [13]),
      (''Relu'', [13]),
      (''Pow'', [13]),
      (''Conv'', [11]),
      (''Erf'', [13]),
      (''CumSum'', [13]),
      (''Squeeze'', [13]),
      (''Constant'', [13]),
      (''ConstantOfShape'', [9]),
      (''Sub'', [13]),
      (''Sin'', [7]),
      (''Cos'', [7]),
      (''Neg'', [13]),
      (''Abs'', [13]),
      (''Min'', [13]),
      (''Max'', [13]),
      (''Log'', [13]),
      (''Less'', [13]),
      (''LessOrEqual'', [13]),
      (''Split'', [1, 13]),
      (''Slice'', [13]),
      (''Pad'', [11]),
      (''Tile'', [13]),
      (''Expand'', [13]),
      (''Attention'', [1]),
      (''Identity'', [1]),
      (''Resize'', [18]),
      (''Einsum'', [12]),
      (''Range'', [12])
     ]"

text \<open>
  Calling \<open>_impl_vN\<close> of a class of this file. The bodies of Reshape, Tile, Slice,
  Constant and Identity are modelled; the other bodies are the environment's.
\<close>

definition call_impl ::
  "('bb, 'ns, 'm) env \<Rightarrow> string \<Rightarrow> int \<Rightarrow> 'bb \<Rightarrow> expr option list \<Rightarrow> attrs
     \<Rightarrow> 'bb converter_result" where
  "call_impl E cls version bb inputs attr =
     (if cls = ''Reshape'' \<and> version = 13 then Reshape_impl_v13 E bb inputs attr
      else if cls = ''Tile'' \<and> version = 13 then Tile_impl_v13 E bb inputs attr
      else if cls = ''Slice'' \<and> version = 13 then Slice_impl_v13 E bb inputs attr
      else if cls = ''Constant'' \<and> version = 13 then Constant_impl_v13 E bb inputs attr
      else if cls = ''Identity'' \<and> version = 1 then Identity_impl_v1 E bb inputs attr
      else other_impl E cls version bb inputs attr)"

text \<open>
  \<open>_convert_operator\<close> (lines 1480 to 1498). For a Relay class everything after the
  lookup is the environment's \<open>relay_impl\<close>.
\<close>

definition convert_operator ::
  "('bb, 'ns, 'm) env \<Rightarrow> 'bb \<Rightarrow> string \<Rightarrow> expr option list \<Rightarrow> attrs \<Rightarrow> int
     \<Rightarrow> 'bb converter_result" where
  "convert_operator E bb op_name inputs attrs opset =
     (case map_of get_convert_map op_name of
        None \<Rightarrow> (Inl (NotImplementedError ''Operator not implemented.''), bb)
      | Some (Relay cls) \<Rightarrow> relay_impl E cls opset bb inputs attrs
      | Some (Native cls) \<Rightarrow>
          (case get_converter (case map_of impl_versions cls of None \<Rightarrow> [] | Some ds \<Rightarrow> ds)
                  opset of
             Inl e \<Rightarrow> (Inl e, bb)
           | Inr version \<Rightarrow> call_impl E cls version bb inputs attrs))"

subsection \<open>The importer object\<close>

text \<open>
  The fields of \<open>ONNXGraphImporter\<close> set by \<open>__init__\<close> (lines 1123 to 1133);
  \<open>self._x\<close> is \<open>self_x\<close>. The dicts \<open>_nodes\<close> and \<open>_inputs\<close> keep insertion
  order. The target is only read inside the Relay branch and is part of the environment.
  A method returns its result together with the object, also when it raises: the
  assignments made before the exception stay. Warnings are not modelled.
\<close>

datatype dtype_arg = DtypeStr string | DtypeDict "(string \<times> string) list"

record ('bb, 'ns) importer =
  self_nodes :: "(string \<times> expr) list"
  self_inputs :: "(string \<times> expr) list"
  self_num_input :: nat
  self_shape :: "(string \<times> dim list) list"
  self_input_names :: "string list"
  self_dtype :: dtype_arg
  self_opset :: "int option"
  self_name_supply :: 'ns
  self_sanitize :: bool
  self_bb :: 'bb

definition importer_init ::
  "('bb, 'ns, 'm) env \<Rightarrow> (string \<times> dim list) list option \<Rightarrow> dtype_arg \<Rightarrow> bool
     \<Rightarrow> ('bb, 'ns) importer" where
  "importer_init E shape dtype sanitize =
     \<lparr> self_nodes = [], self_inputs = [], self_num_input = 0,
       self_shape = (case shape of None \<Rightarrow> [] | Some sh \<Rightarrow> sh),
       self_input_names = [], self_dtype = dtype, self_opset = None,
       self_name_supply = new_name_supply E, self_sanitize = sanitize,
       self_bb = new_block_builder E \<rparr>"

subsection \<open>Initializers\<close>

text \<open>
  \<open>str.strip()\<close> removes whitespace at both ends, so \<open>not name.strip()\<close> holds when
  every character of the name is whitespace (ASCII: codes 9 to 13, 28 to 32).
\<close>

definition py_isspace :: "char \<Rightarrow> bool" where
  "py_isspace c = (of_char c \<in> {9, 10, 11, 12, 13, 28, 29, 30, 31, 32 :: nat})"

text \<open>\<open>_parse_array\<close> (lines 1313 to 1315).\<close>

definition parse_array :: "('bb, 'ns, 'm) env \<Rightarrow> tensor_proto \<Rightarrow> error + ndarray" where
  "parse_array E tensor_proto =
     (case get_numpy E (VTensor tensor_proto) of
        Inl e \<Rightarrow> Inl e
      | Inr a \<Rightarrow> np_reshape E a (t_dims tensor_proto))"

text \<open>\<open>_parse_graph_initializers\<close> (lines 1176 to 1180), on \<open>graph.initializer\<close>.\<close>

fun parse_graph_initializers ::
  "('bb, 'ns, 'm) env \<Rightarrow> ('bb, 'ns) importer \<Rightarrow> tensor_proto list
     \<Rightarrow> (error + unit) \<times> ('bb, 'ns) importer" where
  "parse_graph_initializers E self [] = (Inr (), self)"
| "parse_graph_initializers E self (init_tensor # rest) =
     (if list_all py_isspace (t_name init_tensor)
      then (Inl (ValueError ''Tensor's name is required.''), self)
      else (case parse_array E init_tensor of
              Inl e \<Rightarrow> (Inl e, self)
            | Inr array \<Rightarrow>
                parse_graph_initializers E
                  (self\<lparr>self_nodes :=
                     AList.update (t_name init_tensor) (Constant array) (self_nodes self)\<rparr>)
                  rest))"

subsection \<open>Graph inputs\<close>

text \<open>\<open>get_type\<close> (lines 54 to 66) on an integer and \<open>get_info\<close> (lines 82 to 99).\<close>

definition get_type :: "('bb, 'ns, 'm) env \<Rightarrow> int \<Rightarrow> error + string" where
  "get_type E elem_type =
     (case np_type E elem_type of
        None \<Rightarrow> Inl (KeyError ''TENSOR_TYPE_TO_NP_TYPE'')
      | Some t \<Rightarrow> Inr t)"

definition get_info ::
  "('bb, 'ns, 'm) env \<Rightarrow> value_info_proto \<Rightarrow> error + (string \<times> dim list \<times> string option)" where
  "get_info E info_proto =
     (let shape = map (\<lambda>d. if snd d = 0 then DimDyn else DimValue (snd d)) (vi_dims info_proto)
      in if vi_elem_type info_proto \<noteq> 0
         then (case get_type E (vi_elem_type info_proto) of
                 Inl e \<Rightarrow> Inl e
               | Inr t \<Rightarrow> Inr (vi_name info_proto, shape, Some t))
         else Inr (vi_name info_proto, shape, None))"

text \<open>
  \<open>_sanitize_name\<close> (lines 1198 to 1209). \<open>isalpha\<close> is taken on ASCII letters. The
  name supply is the environment's; it is threaded through.
\<close>

definition py_isalpha :: "char \<Rightarrow> bool" where
  "py_isalpha c = ((65 \<le> (of_char c :: nat) \<and> (of_char c :: nat) \<le> 90) \<or>
                   (97 \<le> (of_char c :: nat) \<and> (of_char c :: nat) \<le> 122))"

fun sanitize_name :: "('bb, 'ns, 'm) env \<Rightarrow> 'ns \<Rightarrow> string \<Rightarrow> string \<times> 'ns" where
  "sanitize_name E ns [] = fresh_name E ns ''empty_''"
| "sanitize_name E ns (c # cs) =
     (let new_name = map (\<lambda>x. if x = CHR ''.'' then CHR ''_'' else x) (c # cs)
      in if \<not> py_isalpha (hd new_name) \<and> hd new_name \<noteq> CHR ''_''
         then fresh_name E ns (''input_'' @ new_name)
         else fresh_name E ns new_name)"

text \<open>The body of the loop of \<open>_parse_graph_input\<close> (lines 1220 to 1240).\<close>

definition parse_graph_input_one ::
  "('bb, 'ns, 'm) env \<Rightarrow> ('bb, 'ns) importer \<Rightarrow> value_info_proto
     \<Rightarrow> (error + unit) \<times> ('bb, 'ns) importer" where
  "parse_graph_input_one E self i =
     (case get_info E i of
        Inl e \<Rightarrow> (Inl e, self)
      | Inr (i_name, i_shape, d_type) \<Rightarrow>
          (let self1 =
                 (if map_of (self_nodes self) i_name = None then
                    (let shape = (case map_of (self_shape self) i_name of
                                    Some sh \<Rightarrow> sh | None \<Rightarrow> i_shape);
                         dtype = (case self_dtype self of
                                    DtypeDict d \<Rightarrow>
                                      (case map_of d i_name of
                                         Some t \<Rightarrow> Some t | None \<Rightarrow> d_type)
                                  | DtypeStr t \<Rightarrow> d_type);
                         named = (if self_sanitize self
                                  then sanitize_name E (self_name_supply self) i_name
                                  else (i_name, self_name_supply self))
                     in self\<lparr>self_num_input := self_num_input self + 1,
                             self_input_names := self_input_names self @ [i_name],
                             self_name_supply := snd named,
                             self_nodes := AList.update i_name (Var (fst named) shape dtype)
                                             (self_nodes self)\<rparr>)
                  else self)
           in (case map_of (self_nodes self1) i_name of
                 None \<Rightarrow> (Inl (KeyError i_name), self1)
               | Some v \<Rightarrow>
                   (Inr (), self1\<lparr>self_inputs :=
                                    AList.update i_name v (self_inputs self1)\<rparr>))))"

fun parse_graph_input ::
  "('bb, 'ns, 'm) env \<Rightarrow> ('bb, 'ns) importer \<Rightarrow> value_info_proto list
     \<Rightarrow> (error + unit) \<times> ('bb, 'ns) importer" where
  "parse_graph_input E self [] = (Inr (), self)"
| "parse_graph_input E self (i # rest) =
     (case parse_graph_input_one E self i of
        (Inl e, self1) \<Rightarrow> (Inl e, self1)
      | (Inr u, self1) \<Rightarrow> parse_graph_input E self1 rest)"

subsection \<open>The check for unsupported operators\<close>

text \<open>
  \<open>_check_for_unsupported_ops\<close> (lines 1243 to 1256). The set of names is kept as a
  list without duplicates.
\<close>

definition unsupported_ops :: "node_proto list \<Rightarrow> string list" where
  "unsupported_ops nodes =
     remdups (filter (\<lambda>op_name. map_of get_convert_map op_name = None \<and>
                                 op_name \<noteq> ''Constant'')
                     (map n_op_type nodes))"

definition check_for_unsupported_ops :: "node_proto list \<Rightarrow> error + unit" where
  "check_for_unsupported_ops nodes =
     (if unsupported_ops nodes \<noteq> [] then Inl (OpNotImplemented (unsupported_ops nodes))
      else Inr ())"

subsection \<open>Node construction\<close>

text \<open>
  Lines 1264 to 1269: a name other than the empty string is looked up in \<open>_nodes\<close>
  (KeyError when it is not bound), the empty string appends None.
\<close>

fun resolve_inputs :: "(string \<times> expr) list \<Rightarrow> string list \<Rightarrow> error + expr option list" where
  "resolve_inputs nodes [] = Inr []"
| "resolve_inputs nodes (i # rest) =
     (if i \<noteq> []
      then (case map_of nodes i of
              None \<Rightarrow> Inl (KeyError i)
            | Some v \<Rightarrow>
                (case resolve_inputs nodes rest of
                   Inl e \<Rightarrow> Inl e
                 | Inr inputs \<Rightarrow> Inr (Some v # inputs)))
      else (case resolve_inputs nodes rest of
              Inl e \<Rightarrow> Inl e
            | Inr inputs \<Rightarrow> Inr (None # inputs)))"

text \<open>Lines 1285 and 1286: one \<open>bb.emit(relax.TupleGetItem(op, i))\<close> for each field.\<close>

fun emit_tuple_items ::
  "('bb, 'ns, 'm) env \<Rightarrow> 'bb \<Rightarrow> expr \<Rightarrow> nat list \<Rightarrow> (error + expr list) \<times> 'bb" where
  "emit_tuple_items E bb op [] = (Inr [], bb)"
| "emit_tuple_items E bb op (i # rest) =
     (case bb_emit E bb (TupleGetItem op i) of
        (Inl e, bb1) \<Rightarrow> (Inl e, bb1)
      | (Inr v, bb1) \<Rightarrow>
          (case emit_tuple_items E bb1 op rest of
             (Inl e, bb2) \<Rightarrow> (Inl e, bb2)
           | (Inr vs, bb2) \<Rightarrow> (Inr (v # vs), bb2)))"

text \<open>
  Lines 1280 to 1292: the operator after unpacking, with \<open>outputs_num\<close>.
  \<open>tuple_fields\<close> of the environment is the number of fields of \<open>op.checked_type\<close>
  when that is a TupleType.
\<close>

definition unpack_outputs ::
  "('bb, 'ns, 'm) env \<Rightarrow> 'bb \<Rightarrow> expr \<Rightarrow> (error + expr \<times> nat) \<times> 'bb" where
  "unpack_outputs E bb op =
     (if \<not> is_Tuple op then
        (case tuple_fields E op of
           Some n \<Rightarrow>
             (case emit_tuple_items E bb op [0..<n] of
                (Inl e, bb1) \<Rightarrow> (Inl e, bb1)
              | (Inr tuple_items, bb1) \<Rightarrow> (Inr (Tuple tuple_items, length tuple_items), bb1))
         | None \<Rightarrow> (Inr (op, 1), bb))
      else (case op of Tuple fs \<Rightarrow> (Inr (op, length fs), bb) | _ \<Rightarrow> (Inr (op, 1), bb)))"

text \<open>\<open>op[i]\<close> on a \<open>relax.Tuple\<close>.\<close>

definition tuple_getitem :: "expr \<Rightarrow> nat \<Rightarrow> error + expr" where
  "tuple_getitem op i =
     (case op of
        Tuple fs \<Rightarrow> py_getitem fs (int i)
      | _ \<Rightarrow> Inl (TypeError ''not subscriptable''))"

text \<open>Lines 1302 and 1303: \<open>self._nodes[k] = op[i]\<close> for each declared output.\<close>

fun bind_outputs ::
  "(string \<times> expr) list \<Rightarrow> expr \<Rightarrow> (string \<times> nat) list
     \<Rightarrow> (error + unit) \<times> (string \<times> expr) list" where
  "bind_outputs nodes op [] = (Inr (), nodes)"
| "bind_outputs nodes op ((k, i) # rest) =
     (case tuple_getitem op i of
        Inl e \<Rightarrow> (Inl e, nodes)
      | Inr v \<Rightarrow> bind_outputs (AList.update k v nodes) op rest)"

text \<open>
  The body of the loop of \<open>_construct_nodes\<close> (lines 1261 to 1303). \<open>from_onnx\<close> sets
  \<open>self.opset\<close> before the loop runs.
\<close>

definition construct_node ::
  "('bb, 'ns, 'm) env \<Rightarrow> ('bb, 'ns) importer \<Rightarrow> node_proto
     \<Rightarrow> (error + unit) \<times> ('bb, 'ns) importer" where
  "construct_node E self node =
     (case parse_attr (n_attribute node) of
        Inl e \<Rightarrow> (Inl e, self)
      | Inr attr0 \<Rightarrow>
     (case resolve_inputs (self_nodes self) (n_input node) of
        Inl e \<Rightarrow> (Inl e, self)
      | Inr inputs \<Rightarrow>
     (case self_opset self of
        None \<Rightarrow> (Inl (TypeError ''opset is None''), self)
      | Some opset \<Rightarrow>
     (case convert_operator E (self_bb self) (n_op_type node) inputs
             (AList.update ''tvm_custom'' (VCustom (n_name node) (length (n_output node))) attr0)
             opset of
        (Inl e, bb1) \<Rightarrow> (Inl e, self\<lparr>self_bb := bb1\<rparr>)
      | (Inr op0, bb1) \<Rightarrow>
     (case bb_normalize E bb1 op0 of
        (Inl e, bb2) \<Rightarrow> (Inl e, self\<lparr>self_bb := bb2\<rparr>)
      | (Inr op1, bb2) \<Rightarrow>
     (case unpack_outputs E bb2 op1 of
        (Inl e, bb3) \<Rightarrow> (Inl e, self\<lparr>self_bb := bb3\<rparr>)
      | (Inr (op, outputs_num), bb3) \<Rightarrow>
          if \<not> length (n_output node) \<le> outputs_num
          then (Inl (AssertionError ''Missing outputs during conversion.''),
                self\<lparr>self_bb := bb3\<rparr>)
          else if outputs_num = 1
          then (case n_output node of
                  [] \<Rightarrow> (Inl (IndexError ''list index out of range''), self\<lparr>self_bb := bb3\<rparr>)
                | k # ks \<Rightarrow>
                    (Inr (), self\<lparr>self_bb := bb3,
                                   self_nodes := AList.update k op (self_nodes self)\<rparr>))
          else (case bind_outputs (self_nodes self) op
                       (zip (n_output node) [0..<length (n_output node)]) of
                  (r, nodes) \<Rightarrow> (r, self\<lparr>self_bb := bb3, self_nodes := nodes\<rparr>))))))))"

fun construct_nodes ::
  "('bb, 'ns, 'm) env \<Rightarrow> ('bb, 'ns) importer \<Rightarrow> node_proto list
     \<Rightarrow> (error + unit) \<times> ('bb, 'ns) importer" where
  "construct_nodes E self [] = (Inr (), self)"
| "construct_nodes E self (node # rest) =
     (case construct_node E self node of
        (Inl e, self1) \<Rightarrow> (Inl e, self1)
      | (Inr u, self1) \<Rightarrow> construct_nodes E self1 rest)"

subsection \<open>ONNXGraphImporter.from\_onnx\<close>

text \<open>Line 1165: \<open>self._nodes[name]\<close> for each graph output.\<close>

fun lookup_outputs :: "(string \<times> expr) list \<Rightarrow> string list \<Rightarrow> error + expr list" where
  "lookup_outputs nodes [] = Inr []"
| "lookup_outputs nodes (i # rest) =
     (case map_of nodes i of
        None \<Rightarrow> Inl (KeyError i)
      | Some v \<Rightarrow>
          (case lookup_outputs nodes rest of
             Inl e \<Rightarrow> Inl e
           | Inr vs \<Rightarrow> Inr (v # vs)))"

text \<open>Line 1166: \<open>outputs[0] if len(outputs) == 1 else relax.Tuple(outputs)\<close>.\<close>

fun wrap_outputs :: "expr list \<Rightarrow> expr" where
  "wrap_outputs [out] = out"
| "wrap_outputs outputs = Tuple outputs"

text \<open>
  The method \<open>from_onnx\<close> (lines 1156 to 1172). \<open>bb_enter_main\<close> of the environment
  opens the function \<open>main\<close> and its dataflow block. The value returned is
  \<open>self.bb.get()\<close>.
\<close>

definition importer_from_onnx ::
  "('bb, 'ns, 'm) env \<Rightarrow> ('bb, 'ns) importer \<Rightarrow> graph_proto \<Rightarrow> int
     \<Rightarrow> (error + 'm) \<times> ('bb, 'ns) importer" where
  "importer_from_onnx E self graph opset =
     (case parse_graph_initializers E
             (self\<lparr>self_bb := bb_enter_main E (self_bb self), self_opset := Some opset\<rparr>)
             (g_initializer graph) of
        (Inl e, self1) \<Rightarrow> (Inl e, self1)
      | (Inr u1, self1) \<Rightarrow>
     (case parse_graph_input E self1 (g_input graph) of
        (Inl e, self2) \<Rightarrow> (Inl e, self2)
      | (Inr u2, self2) \<Rightarrow>
     (case check_for_unsupported_ops (g_node graph) of
        Inl e \<Rightarrow> (Inl e, self2)
      | Inr u3 \<Rightarrow>
     (case construct_nodes E self2 (g_node graph) of
        (Inl e, self3) \<Rightarrow> (Inl e, self3)
      | (Inr u4, self3) \<Rightarrow>
     (case lookup_outputs (self_nodes self3) (map vi_name (g_output graph)) of
        Inl e \<Rightarrow> (Inl e, self3)
      | Inr outputs \<Rightarrow>
     (case bb_emit_output E (self_bb self3) (wrap_outputs outputs) of
        (Inl e, bb4) \<Rightarrow> (Inl e, self3\<lparr>self_bb := bb4\<rparr>)
      | (Inr output_var, bb4) \<Rightarrow>
     (case bb_emit_func_output E bb4 output_var
             (filter is_Var (map snd (self_inputs self3))) of
        (Inl e, bb5) \<Rightarrow> (Inl e, self3\<lparr>self_bb := bb5\<rparr>)
      | (Inr u5, bb5) \<Rightarrow> (Inr (bb_get E bb5), self3\<lparr>self_bb := bb5\<rparr>))))))))"

subsection \<open>The entry point from\_onnx\<close>

text \<open>Lines 1564 to 1573: the version of the first entry whose domain is the default one.\<close>

fun opset_in_model :: "(string \<times> int) list \<Rightarrow> int" where
  "opset_in_model [] = 1"
| "opset_in_model ((domain, version) # rest) =
     (if domain = ''ai.onnx'' \<or> domain = [] then version else opset_in_model rest)"

text \<open>
  \<open>from_onnx\<close> (lines 1538 to 1587). The model checker only warns. The result is what
  the method of the importer returns.
\<close>

definition from_onnx ::
  "('bb, 'ns, 'm) env \<Rightarrow> model_proto \<Rightarrow> (string \<times> dim list) list option \<Rightarrow> dtype_arg
     \<Rightarrow> int option \<Rightarrow> bool \<Rightarrow> error + 'm" where
  "from_onnx E model shape dtype opset sanitize_input_names =
     (if m_ir_version model < 3
      then Inl (ValueError ''Model IR version not supported. Must be at least after 1.1.0.'')
      else fst (importer_from_onnx E
                  (importer_init E shape dtype sanitize_input_names)
                  (m_graph model)
                  (case opset of
                     None \<Rightarrow> opset_in_model (m_opset_import model)
                   | Some v \<Rightarrow> v)))"

subsection \<open>An environment for closed examples\<close>

text \<open>
  The theorems below hold for every environment. The closed examples need one: a block
  builder that records its bindings, a decoder that reads the raw bytes of a tensor as
  integers, arrays of one dimension, and converters that return an operator call.
\<close>

definition digit_char :: "nat \<Rightarrow> char" where
  "digit_char d =
     (if d = 0 then CHR ''0'' else if d = 1 then CHR ''1'' else if d = 2 then CHR ''2''
      else if d = 3 then CHR ''3'' else if d = 4 then CHR ''4'' else if d = 5 then CHR ''5''
      else if d = 6 then CHR ''6'' else if d = 7 then CHR ''7'' else if d = 8 then CHR ''8''
      else CHR ''9'')"

function string_of_nat :: "nat \<Rightarrow> string" where
  "string_of_nat n =
     (if n < 10 then [digit_char n] else string_of_nat (n div 10) @ [digit_char (n mod 10)])"
  by pat_completeness auto
termination
  by (relation "measure id") auto

text \<open>
  Modelled from the spec: \<open>NameSupply.fresh_name\<close> is not under src/. The spec and the
  docstring of \<open>_sanitize_name\<close> say that the empty name becomes \<open>empty_0\<close>, then
  \<open>empty_1\<close>, and that duplicates are told apart by an incrementing suffix. The supply
  counts the requests made for each prefix.
\<close>

definition spec_fresh_name ::
  "(string \<times> nat) list \<Rightarrow> string \<Rightarrow> string \<times> (string \<times> nat) list" where
  "spec_fresh_name ns prefix =
     (let n = (case map_of ns prefix of None \<Rightarrow> 0 | Some k \<Rightarrow> k)
      in (if prefix = ''empty_'' \<or> 0 < n then prefix @ string_of_nat n else prefix,
          AList.update prefix (Suc n) ns))"

text \<open>The recording builder: the bindings emitted, and the function output once set.\<close>

record demo_builder =
  db_bindings :: "(string \<times> expr) list"
  db_output :: "(expr \<times> expr list) option"

datatype ir_module = IRModule (mod_params: "expr list") (mod_bindings: "(string \<times> expr) list")
  (mod_ret: "expr option")

definition demo_emit :: "string \<Rightarrow> demo_builder \<Rightarrow> expr \<Rightarrow> (error + expr) \<times> demo_builder" where
  "demo_emit prefix bb e =
     (let name = prefix @ string_of_nat (length (db_bindings bb))
      in (Inr (Var name [] None), bb\<lparr>db_bindings := db_bindings bb @ [(name, e)]\<rparr>))"

fun demo_static_shape :: "expr option \<Rightarrow> error + int list" where
  "demo_static_shape (Some (Var n sh dt)) =
     (if list_all (\<lambda>d. d \<noteq> DimDyn) sh
      then Inr (map (\<lambda>d. case d of DimValue v \<Rightarrow> v | DimDyn \<Rightarrow> 0) sh)
      else Inl (AttributeError ''value''))"
| "demo_static_shape (Some (Constant a)) = Inr (arr_shape a)"
| "demo_static_shape _ = Inl (AttributeError ''struct_info'')"

definition demo_call :: "string \<Rightarrow> expr option list \<Rightarrow> expr option" where
  "demo_call name inputs = Some (Call name (map the (filter (\<lambda>x. x \<noteq> None) inputs)))"

fun te_exprs :: "te_arg \<Rightarrow> expr option list" where
  "te_exprs (ArgExpr e) = [e]"
| "te_exprs (ArgVal v) = []"
| "te_exprs (ArgKw k a) = te_exprs a"

definition demo_env :: "(demo_builder, (string \<times> nat) list, ir_module) env" where
  "demo_env =
     \<lparr> to_array = (\<lambda>v. case v of
                      VTensor t \<Rightarrow>
                        Inr (NDArray ''int64'' (t_dims t)
                               (map (\<lambda>c. int (of_char c)) (t_raw_data t)))
                    | _ \<Rightarrow> Inl (AttributeError ''HasField'')),
       np_reshape = (\<lambda>a dims. Inr (NDArray (arr_dtype a) dims (arr_data a))),
       np_tolist = (\<lambda>a. PyList (map PyInt (arr_data a))),
       prod_quotient = (\<lambda>data_shape new_product. prod_list data_shape div new_product),
       np_type = (\<lambda>t. if t = 1 then Some ''float32'' else if t = 7 then Some ''int64''
                       else None),
       new_name_supply = [],
       fresh_name = spec_fresh_name,
       new_block_builder = \<lparr> db_bindings = [], db_output = None \<rparr>,
       bb_enter_main = (\<lambda>bb. bb),
       bb_normalize = (\<lambda>bb op. case op of
                                  None \<Rightarrow> (Inl (TypeError ''normalize None''), bb)
                                | Some e \<Rightarrow> (Inr e, bb)),
       bb_emit = demo_emit ''lv'',
       bb_emit_te = (\<lambda>bb f args.
                       (case demo_emit ''lv'' bb (Call f (map the (filter (\<lambda>x. x \<noteq> None)
                                                         (concat (map te_exprs args))))) of
                          (Inl e, bb1) \<Rightarrow> (Inl e, bb1)
                        | (Inr v, bb1) \<Rightarrow> (Inr (Some v), bb1))),
       bb_emit_output = demo_emit ''gv'',
       bb_emit_func_output = (\<lambda>bb out params. (Inr (), bb\<lparr>db_output := Some (out, params)\<rparr>)),
       bb_get = (\<lambda>bb. case db_output bb of
                         None \<Rightarrow> IRModule [] (db_bindings bb) None
                       | Some (out, params) \<Rightarrow> IRModule params (db_bindings bb) (Some out)),
       tuple_fields = (\<lambda>op. None),
       static_shape = demo_static_shape,
       other_impl = (\<lambda>cls version bb inputs attr. (Inr (demo_call cls inputs), bb)),
       relay_impl = (\<lambda>cls opset bb inputs attr. (Inr (demo_call cls inputs), bb)) \<rparr>"

text \<open>
  The example environment with converters that return the tuple of their inputs, as a
  converter of an operator with several outputs does.
\<close>

definition demo_tuple_env :: "(demo_builder, (string \<times> nat) list, ir_module) env" where
  "demo_tuple_env =
     demo_env\<lparr>other_impl :=
       (\<lambda>cls version bb inputs attr.
          (Inr (Some (Tuple (map the (filter (\<lambda>x. x \<noteq> None) inputs)))), bb))\<rparr>"

text \<open>An AttributeProto with a name and no value field populated.\<close>

definition new_attribute :: "string \<Rightarrow> attribute_proto" where
  "new_attribute name =
     \<lparr> a_name = name, a_f = None, a_i = None, a_s = None, a_g = None, a_t = None,
       a_floats = [], a_ints = [], a_strings = [], a_tensors = [], a_graphs = [] \<rparr>"

text \<open>
  Protobuf messages for the closed examples: a tensor of two int64 elements, a value info
  of element type float with one fixed and one symbolic dimension, a node, and a model of
  IR version 8 that imports opset 13 of the default domain.
\<close>

definition example_tensor :: "string \<Rightarrow> tensor_proto" where
  "example_tensor name = \<lparr> t_name = name, t_dims = [2], t_data_type = 7, t_raw_data = ''ab'' \<rparr>"

definition example_info :: "string \<Rightarrow> value_info_proto" where
  "example_info name = \<lparr> vi_name = name, vi_dims = [([], 2), (''n'', 0)], vi_elem_type = 1 \<rparr>"

definition example_node ::
  "string \<Rightarrow> string list \<Rightarrow> string list \<Rightarrow> attribute_proto list \<Rightarrow> node_proto" where
  "example_node op_type ins outs attributes =
     \<lparr> n_name = ''n0'', n_op_type = op_type, n_input = ins, n_output = outs,
       n_attribute = attributes \<rparr>"

definition example_graph ::
  "string list \<Rightarrow> string list \<Rightarrow> node_proto list \<Rightarrow> string list \<Rightarrow> graph_proto" where
  "example_graph initializers ins nodes outs =
     \<lparr> g_node = nodes, g_input = map example_info ins, g_output = map example_info outs,
       g_initializer = map example_tensor initializers \<rparr>"

definition example_model ::
  "string list \<Rightarrow> string list \<Rightarrow> node_proto list \<Rightarrow> string list \<Rightarrow> model_proto" where
  "example_model initializers ins nodes outs =
     \<lparr> m_ir_version = 8, m_opset_import = [([], 13)],
       m_graph = example_graph initializers ins nodes outs \<rparr>"

text \<open>The importer object that \<open>from_onnx\<close> creates in the example environment.\<close>

definition example_importer :: "(demo_builder, (string \<times> nat) list) importer" where
  "example_importer = importer_init demo_env None (DtypeStr ''float32'') True"

text \<open>
  The example importer after the initializer w and the graph input x have been bound
  (opset 13).
\<close>

definition example_bound :: "(demo_builder, (string \<times> nat) list) importer" where
  "example_bound =
     example_importer\<lparr>self_opset := Some 13,
        self_nodes := [(''w'', Constant (NDArray ''int64'' [2] [97, 98])),
                       (''x'', Var ''x'' [DimValue 2, DimDyn] (Some ''float32''))],
        self_inputs := [(''x'', Var ''x'' [DimValue 2, DimDyn] (Some ''float32''))],
        self_num_input := 1, self_input_names := [''x''],
        self_name_supply := [(''x'', 1)]\<rparr>"

text \<open>The index that line 151 computes before subtracting one.\<close>

definition last_index :: "int list \<Rightarrow> int \<Rightarrow> nat" where
  "last_index vs v = Max {i. i < length vs \<and> vs ! i = v}"

section \<open>Version resolution\<close>

lemma py_max_Max: "xs \<noteq> [] \<Longrightarrow> py_max xs = Inr (Max (set xs))"
  by (cases xs) (simp_all add: Max.set_eq_fold [symmetric])

lemma zip_upt_nth: "zip [0..<length vs] vs = map (\<lambda>i. (i, vs ! i)) [0..<length vs]"
proof -
  have "zip [0..<length vs] vs = zip [0..<length vs] (map ((!) vs) [0..<length vs])"
    by (simp add: map_nth)
  also have "\<dots> = map (\<lambda>i. (i, vs ! i)) [0..<length vs]"
    by (simp only: zip_map2 zip_same_conv_map) simp
  finally show ?thesis .
qed

lemma enum_idx:
  "map (\<lambda>p. int (fst p)) (filter (\<lambda>p. snd p = (v::int)) (enumerate 0 vs))
     = map int (filter (\<lambda>i. vs ! i = v) [0..<length vs])"
  by (simp add: enumerate_eq_zip zip_upt_nth filter_map comp_def)

lemma sorted_last_index:
  fixes vs :: "int list"
  assumes s: "sorted vs" and mem: "v \<in> set vs"
  defines "m \<equiv> Max {i. i < length vs \<and> vs ! i = v}"
  shows "m < length vs" "vs ! m = v" "\<forall>j<length vs. m < j \<longrightarrow> v < vs ! j"
proof -
  let ?I = "{i. i < length vs \<and> vs ! i = v}"
  have fin: "finite ?I" by simp
  have ne: "?I \<noteq> {}" using mem by (auto simp: in_set_conv_nth)
  have "m \<in> ?I" unfolding m_def using Max_in [OF fin ne] .
  then show "m < length vs" "vs ! m = v" by auto
  show "\<forall>j<length vs. m < j \<longrightarrow> v < vs ! j"
  proof (intro allI impI)
    fix j assume j: "j < length vs" "m < j"
    have "v \<le> vs ! j" using s j \<open>vs ! m = v\<close> sorted_nth_mono [of vs m j] by simp
    moreover have "vs ! j \<noteq> v"
    proof
      assume "vs ! j = v"
      then have "j \<in> ?I" using j by simp
      then have "j \<le> m" unfolding m_def using Max_ge [OF fin] by blast
      then show False using j by simp
    qed
    ultimately show "v < vs ! j" by simp
  qed
qed

lemma py_max_last_index:
  assumes "v \<in> set vs"
  shows "py_max (map (\<lambda>p. int (fst p)) (filter (\<lambda>p. snd p = v) (enumerate 0 vs)))
         = Inr (int (last_index vs v))"
proof -
  let ?is = "filter (\<lambda>i. vs ! i = v) [0..<length vs]"
  obtain k where k: "k < length vs" "vs ! k = v"
    using assms by (auto simp: in_set_conv_nth)
  then have "k \<in> set ?is" by simp
  then have ne: "?is \<noteq> []" by (cases ?is) simp_all
  have set_is: "set ?is = {i. i < length vs \<and> vs ! i = v}" by auto
  have "py_max (map int ?is) = Inr (Max (int ` set ?is))"
    using ne py_max_Max [of "map int ?is"] by simp
  also have "Max (int ` set ?is) = int (Max (set ?is))"
    using k by (intro mono_Max_commute [symmetric]) (auto simp: mono_def)
  finally show ?thesis by (simp add: enum_idx last_index_def set_is)
qed

lemma get_converter_split:
  fixes ds :: "int list" and opset :: int
  defines "vs \<equiv> sort (ds @ [opset])"
  defines "m \<equiv> last_index vs opset"
  shows "m < length vs"
    and "set ds = set (take m vs) \<union> set (drop (Suc m) vs)"
    and "\<forall>x\<in>set (take m vs). x \<le> opset"
    and "\<forall>x\<in>set (drop (Suc m) vs). opset < x"
    and "get_converter ds opset =
          (case py_getitem vs (int m - 1) of Inl e \<Rightarrow> Inl e
           | Inr version \<Rightarrow> if version \<in> set ds then Inr version
               else Inl (NotImplementedError ''opset version not implemented''))"
proof -
  have s: "sorted vs" and mem: "opset \<in> set vs" by (simp_all add: vs_def)
  note li = sorted_last_index [OF s mem, folded last_index_def m_def]
  show m: "m < length vs" by (rule li)
  have vm: "vs ! m = opset" by (rule li)
  have split: "vs = take m vs @ opset # drop (Suc m) vs"
    using id_take_nth_drop [OF m] vm by simp
  have "mset vs = mset ds + {#opset#}" by (simp add: vs_def)
  moreover have "mset vs = mset (take m vs) + mset (drop (Suc m) vs) + {#opset#}"
    by (subst split) simp
  ultimately have "mset ds = mset (take m vs) + mset (drop (Suc m) vs)" by simp
  then have "set_mset (mset ds) = set_mset (mset (take m vs) + mset (drop (Suc m) vs))"
    by simp
  then show "set ds = set (take m vs) \<union> set (drop (Suc m) vs)" by simp
  show "\<forall>x\<in>set (take m vs). x \<le> opset"
  proof
    fix x assume "x \<in> set (take m vs)"
    then obtain i where "i < m" "x = vs ! i" using m by (auto simp: in_set_conv_nth)
    then show "x \<le> opset" using sorted_nth_mono [OF s, of i m] m vm by simp
  qed
  show "\<forall>x\<in>set (drop (Suc m) vs). opset < x"
  proof
    fix x assume "x \<in> set (drop (Suc m) vs)"
    then obtain i where "i < length vs - Suc m" "x = vs ! (Suc m + i)"
      by (auto simp: in_set_conv_nth)
    then show "opset < x" using li(3) by simp
  qed
  show "get_converter ds opset =
          (case py_getitem vs (int m - 1) of Inl e \<Rightarrow> Inl e
           | Inr version \<Rightarrow> if version \<in> set ds then Inr version
               else Inl (NotImplementedError ''opset version not implemented''))"
    unfolding get_converter_def Let_def vs_def [symmetric]
    by (simp add: py_max_last_index [OF mem] m_def)
qed

lemma get_converter_le:
  assumes ex: "\<exists>t\<in>set ds. t \<le> opset"
  shows "get_converter ds opset = Inr (Max {t \<in> set ds. t \<le> opset})"
proof -
  define vs where "vs = sort (ds @ [opset])"
  define m where "m = last_index vs opset"
  note gs = get_converter_split [of ds opset, folded vs_def m_def]
  have s: "sorted vs" by (simp add: vs_def)
  have T: "{t \<in> set ds. t \<le> opset} = set (take m vs)"
    using gs(2,3,4) by auto
  from ex have "set (take m vs) \<noteq> {}" unfolding T [symmetric] by blast
  then have "take m vs \<noteq> []" by simp
  then have m0: "0 < m" by (cases m) simp_all
  have mlt: "m < length vs" by (rule gs(1))
  have pg: "py_getitem vs (int m - 1) = Inr (vs ! (m - 1))"
    using m0 mlt by (simp add: py_getitem_def Let_def nat_diff_distrib')
  have inT: "vs ! (m - 1) \<in> set (take m vs)"
    using m0 mlt by (auto simp: in_set_conv_nth intro!: exI [of _ "m - 1"])
  have top: "\<forall>x\<in>set (take m vs). x \<le> vs ! (m - 1)"
  proof
    fix x assume "x \<in> set (take m vs)"
    then obtain i where "i < m" "x = vs ! i" using mlt by (auto simp: in_set_conv_nth)
    then show "x \<le> vs ! (m - 1)" using sorted_nth_mono [OF s, of i "m - 1"] mlt by simp
  qed
  have "Max (set (take m vs)) = vs ! (m - 1)"
    using inT top by (intro Max_eqI) auto
  moreover have "vs ! (m - 1) \<in> set ds" using inT gs(2) by auto
  ultimately show ?thesis using gs(5) pg T by simp
qed

lemma get_converter_below:
  assumes ne: "ds \<noteq> []" and below: "\<forall>t\<in>set ds. opset < t"
  shows "get_converter ds opset = Inr (Max (set ds))"
proof -
  define vs where "vs = sort (ds @ [opset])"
  define m where "m = last_index vs opset"
  note gs = get_converter_split [of ds opset, folded vs_def m_def]
  have s: "sorted vs" by (simp add: vs_def)
  have len: "length vs = Suc (length ds)" by (simp add: vs_def)
  have "take m vs = []"
  proof (cases "take m vs")
    case Nil
    then show ?thesis .
  next
    case (Cons x xs)
    then have x: "x \<in> set (take m vs)" by simp
    then have "x \<le> opset" using gs(3) by blast
    moreover have "x \<in> set ds" using x gs(2) by blast
    ultimately show ?thesis using below by force
  qed
  then have m0: "m = 0" using gs(1) by (cases m) simp_all
  have pg: "py_getitem vs (int m - 1) = Inr (vs ! (length vs - 1))"
    using m0 len by (simp add: py_getitem_def Let_def)
  have setds: "set ds = set (drop 1 vs)" using gs(2) m0 by simp
  have lastin: "vs ! (length vs - 1) \<in> set (drop 1 vs)"
    using len ne by (auto simp: in_set_conv_nth intro!: exI [of _ "length ds - 1"])
  have top: "\<forall>x\<in>set ds. x \<le> vs ! (length vs - 1)"
  proof
    fix x assume "x \<in> set ds"
    then have "x \<in> set vs" by (simp add: vs_def)
    then obtain i where "i < length vs" "x = vs ! i" by (auto simp: in_set_conv_nth)
    then show "x \<le> vs ! (length vs - 1)"
      using sorted_nth_mono [OF s, of i "length vs - 1"] by simp
  qed
  have "Max (set ds) = vs ! (length vs - 1)"
    using lastin top setds by (intro Max_eqI) auto
  moreover have "vs ! (length vs - 1) \<in> set ds" using lastin setds by simp
  ultimately show ?thesis using gs(5) pg by simp
qed

lemma get_converter_empty: "get_converter [] opset = Inl (NotImplementedError ''opset version not implemented'')"
  by (simp add: get_converter_def py_getitem_def enumerate_eq_zip)

subsection \<open>Claim C1\<close>

text \<open>
  C1. For a converter class whose declared versions are 1, 7 and 13, the opsets 1, 6, 7,
  12, 13 and 14 select the versions 1, 1, 7, 7, 13 and 13. In general, when at least one
  declared version is at or below the requested opset, get_converter returns the largest
  declared version that is at or below the requested opset.
\<close>

theorem get_converter_selects_largest_threshold_le:
  "(set ds = {1, 7, 13} \<longrightarrow>
      get_converter ds 1 = Inr 1 \<and> get_converter ds 6 = Inr 1 \<and>
      get_converter ds 7 = Inr 7 \<and> get_converter ds 12 = Inr 7 \<and>
      get_converter ds 13 = Inr 13 \<and> get_converter ds 14 = Inr 13) \<and>
   ((\<exists>t\<in>set ds. t \<le> opset) \<longrightarrow>
      get_converter ds opset = Inr (Max {t \<in> set ds. t \<le> opset}))"
proof (intro conjI impI)
  assume ds: "set ds = {1, 7, 13}"
  have sel: "\<And>v r. r \<in> set ds \<Longrightarrow> r \<le> v \<Longrightarrow> (\<forall>t\<in>set ds. t \<le> v \<longrightarrow> t \<le> r)
              \<Longrightarrow> get_converter ds v = Inr r"
  proof -
    fix v r assume r: "r \<in> set ds" "r \<le> v" "\<forall>t\<in>set ds. t \<le> v \<longrightarrow> t \<le> r"
    then have "Max {t \<in> set ds. t \<le> v} = r" by (intro Max_eqI) auto
    moreover have "\<exists>t\<in>set ds. t \<le> v" using r by blast
    ultimately show "get_converter ds v = Inr r" using get_converter_le [of ds v] by simp
  qed
  show "get_converter ds 1 = Inr 1" by (rule sel) (simp_all add: ds)
  show "get_converter ds 6 = Inr 1" by (rule sel) (simp_all add: ds)
  show "get_converter ds 7 = Inr 7" by (rule sel) (simp_all add: ds)
  show "get_converter ds 12 = Inr 7" by (rule sel) (simp_all add: ds)
  show "get_converter ds 13 = Inr 13" by (rule sel) (simp_all add: ds)
  show "get_converter ds 14 = Inr 13" by (rule sel) (simp_all add: ds)
next
  assume "\<exists>t\<in>set ds. t \<le> opset"
  then show "get_converter ds opset = Inr (Max {t \<in> set ds. t \<le> opset})"
    by (rule get_converter_le)
qed

text \<open>The theorem at the class with methods \<open>_impl_v13\<close>, \<open>_impl_v1\<close>, \<open>_impl_v7\<close> and opset 10.\<close>

theorem get_converter_selects_largest_threshold_le_witness:
  "set [13, 1, 7] = {1, 7, 13 :: int} \<and>
   get_converter [13, 1, 7] 1 = Inr 1 \<and> get_converter [13, 1, 7] 6 = Inr 1 \<and>
   get_converter [13, 1, 7] 7 = Inr 7 \<and> get_converter [13, 1, 7] 12 = Inr 7 \<and>
   get_converter [13, 1, 7] 13 = Inr 13 \<and> get_converter [13, 1, 7] 14 = Inr 13 \<and>
   (\<exists>t\<in>set [13, 1, 7 :: int]. t \<le> 10) \<and>
   get_converter [13, 1, 7] 10 = Inr (Max {t \<in> set [13, 1, 7]. t \<le> 10}) \<and>
   get_converter [13, 1, 7] 10 = Inr 7"
proof -
  have s: "set [13, 1, 7] = {1, 7, 13 :: int}" by auto
  have e: "\<exists>t\<in>set [13, 1, 7 :: int]. t \<le> 10" by simp
  have c: "get_converter [13, 1, 7] 10 = Inr 7"
    by (simp add: get_converter_def py_getitem_def enumerate_eq_zip)
  note t = get_converter_selects_largest_threshold_le [of "[13, 1, 7]" 10]
  note a = t [THEN conjunct1, THEN mp, OF s]
  note b = t [THEN conjunct2, THEN mp, OF e]
  show ?thesis
    apply (insert s a e b c)
    apply (elim conjE)
    apply (intro conjI)
    apply assumption+
    done
qed

subsection \<open>Claim C2\<close>

text \<open>
  C2. The claim asks for an error when the requested opset is below every declared
  version. The code does not raise there: the index computed on line 151 is \<open>0 - 1\<close>,
  Python reads \<open>versions[-1]\<close> as the last element of the sorted list, and the highest
  declared version is returned (lemma \<open>get_converter_below\<close>). Div declares only
  \<open>_impl_v14\<close>; at opset 13 its version 14 is selected.
\<close>

theorem get_converter_below_every_threshold_picks_highest:
  "get_converter [14] 13 = Inr 14 \<and> get_converter [7, 13] 1 = Inr 13"
  by (simp add: get_converter_def py_getitem_def enumerate_eq_zip)

section \<open>Inputs, converters and dispatch\<close>

lemma getitem_nat:
  "onnx_input_getitem xs (int k) = Inr (if k < length xs then xs ! k else None)"
  by (simp add: onnx_input_getitem_def py_getitem_def)

lemma getitem_0: "onnx_input_getitem xs 0 = Inr (if 0 < length xs then xs ! 0 else None)"
  using getitem_nat [of xs 0] by simp

lemma getitem_1: "onnx_input_getitem xs 1 = Inr (if 1 < length xs then xs ! 1 else None)"
  using getitem_nat [of xs 1] by simp

lemma getitem_2: "onnx_input_getitem xs 2 = Inr (if 2 < length xs then xs ! 2 else None)"
  using getitem_nat [of xs 2] by simp

lemma getitem_3: "onnx_input_getitem xs 3 = Inr (if 3 < length xs then xs ! 3 else None)"
  using getitem_nat [of xs 3] by simp

lemma getitem_4: "onnx_input_getitem xs 4 = Inr (if 4 < length xs then xs ! 4 else None)"
  using getitem_nat [of xs 4] by simp

lemmas getitem_small = getitem_0 getitem_1 getitem_2 getitem_3 getitem_4

lemma Tile_dynamic:
  assumes "\<not> is_Constant (if 1 < length inputs then inputs ! 1 else None)"
  shows "Tile_impl_v13 E bb inputs attr =
           (Inl (ValueError ''Dynamic reps for Tile are supported yet.''), bb)"
  using assms unfolding Tile_impl_v13_def getitem_small
  by (cases "if 1 < length inputs then inputs ! 1 else None" rule: is_Constant.cases)
     (simp_all split: if_splits)

lemma Reshape_dynamic:
  assumes "\<not> is_Constant (if 1 < length inputs then inputs ! 1 else None)"
  shows "Reshape_impl_v13 E bb inputs attr =
           (Inr (if 0 < length inputs then inputs ! 0 else None), bb)"
  using assms unfolding Reshape_impl_v13_def getitem_small
  by (cases "if 1 < length inputs then inputs ! 1 else None" rule: is_Constant.cases)
     (simp_all split: if_splits)

lemma const_or_none_iff: "const_or_none x \<longleftrightarrow> x = None \<or> is_Constant x"
  by (cases x rule: const_or_none.cases) simp_all

lemma Slice_dynamic:
  assumes k: "k \<in> {1, 2, 3, 4}" "k < length inputs"
    and dyn: "inputs ! k \<noteq> None" "\<not> is_Constant (inputs ! k)"
  shows "Slice_impl_v13 E bb inputs attr =
           (Inl (ValueError ''Only constant Slice parameters are currently supported.''), bb)"
proof -
  have "\<not> const_or_none (inputs ! k)" using dyn by (simp add: const_or_none_iff)
  then show ?thesis
    using k unfolding Slice_impl_v13_def getitem_small
    by (auto simp: const_or_none_iff)
qed

lemma get_converter_single: "get_converter [v] opset = Inr v"
proof (cases "v \<le> opset")
  case True
  then have "{t \<in> set [v]. t \<le> opset} = {v}" by auto
  then show ?thesis using get_converter_le [of "[v]" opset] True by simp
next
  case False
  then show ?thesis using get_converter_below [of "[v]" opset] by simp
qed

lemma convert_operator_Tile:
  "convert_operator E bb ''Tile'' inputs attrs opset = Tile_impl_v13 E bb inputs attrs"
  by (simp add: convert_operator_def get_convert_map_def impl_versions_def
        get_converter_single call_impl_def)

lemma convert_operator_Constant:
  "convert_operator E bb ''Constant'' inputs attrs opset = Constant_impl_v13 E bb inputs attrs"
  by (simp add: convert_operator_def get_convert_map_def impl_versions_def
        get_converter_single call_impl_def)

lemma convert_operator_Reshape:
  "convert_operator E bb ''Reshape'' inputs attrs opset = Reshape_impl_v13 E bb inputs attrs"
  by (simp add: convert_operator_def get_convert_map_def impl_versions_def
        get_converter_single call_impl_def)

lemma convert_operator_Slice:
  "convert_operator E bb ''Slice'' inputs attrs opset = Slice_impl_v13 E bb inputs attrs"
  by (simp add: convert_operator_def get_convert_map_def impl_versions_def
        get_converter_single call_impl_def)

lemma resolve_inputs_blank:
  "resolve_inputs nodes names = Inr inputs \<Longrightarrow>
     length inputs = length names \<and> (\<forall>k<length names. names ! k = [] \<longrightarrow> inputs ! k = None)"
proof (induction names arbitrary: inputs)
  case Nil
  then show ?case by simp
next
  case (Cons i rest)
  then show ?case
    by (auto split: if_splits option.splits sum.splits simp: nth_Cons split: nat.splits)
qed

lemma resolve_inputs_all_blank: "resolve_inputs nodes (replicate n []) = Inr (replicate n None)"
  by (induction n) simp_all

subsection \<open>Claim C9\<close>

text \<open>
  C9. An integer access to \<open>onnx_input\<close> at or beyond its length yields None and no
  error. A node input declared with the empty string is resolved to None without a lookup
  in \<open>_nodes\<close>: a list of empty names resolves to Nones whatever \<open>_nodes\<close> holds (also
  when the empty string is bound), and in every resolved input list the position of an
  empty name holds None, which is what an access to that position returns.
\<close>

theorem absent_input_is_None:
  "(int (length xs) \<le> item \<longrightarrow> onnx_input_getitem xs item = Inr None) \<and>
   resolve_inputs nodes (replicate n []) = Inr (replicate n None) \<and>
   (resolve_inputs nodes names = Inr inputs \<and> k < length names \<and> names ! k = [] \<longrightarrow>
      k < length inputs \<and> inputs ! k = None \<and> onnx_input_getitem inputs (int k) = Inr None)"
proof (intro conjI impI)
  assume "int (length xs) \<le> item"
  then show "onnx_input_getitem xs item = Inr None"
    by (simp add: onnx_input_getitem_def)
next
  show "resolve_inputs nodes (replicate n []) = Inr (replicate n None)"
    by (rule resolve_inputs_all_blank)
next
  assume a: "resolve_inputs nodes names = Inr inputs \<and> k < length names \<and> names ! k = []"
  then have r: "length inputs = length names" "inputs ! k = None"
    using resolve_inputs_blank [of nodes names inputs] by auto
  show "k < length inputs" using a r by simp
  show "inputs ! k = None" by (rule r)
  show "onnx_input_getitem inputs (int k) = Inr None"
    using a r by (simp add: getitem_nat)
qed

text \<open>The theorem at concrete lists; the empty name is bound in \<open>_nodes\<close> and still yields None.\<close>

theorem absent_input_is_None_witness:
  "int (length [Some (1::nat)]) \<le> 1 \<and> onnx_input_getitem [Some (1::nat)] 1 = Inr None \<and>
   resolve_inputs [([], Tuple [])] (replicate 2 []) = Inr (replicate 2 None) \<and>
   resolve_inputs [(''x'', Tuple []), ([], Tuple [])] [''x'', []] = Inr [Some (Tuple []), None] \<and>
   (1::nat) < length [''x'', []] \<and> [''x'', []] ! 1 = [] \<and>
   (1::nat) < length [Some (Tuple []), None] \<and> [Some (Tuple []), None] ! 1 = None \<and>
   onnx_input_getitem [Some (Tuple []), None] (int 1) = Inr None"
proof -
  note t1 = absent_input_is_None [of "[Some (1::nat)]" 1 "[([], Tuple [])]" 2
      "[''x'', []]" "[Some (Tuple []), None]" 1]
  note t2 = absent_input_is_None [of "[Some (1::nat)]" 1 "[(''x'', Tuple []), ([], Tuple [])]" 2
      "[''x'', []]" "[Some (Tuple []), None]" 1]
  have h1: "int (length [Some (1::nat)]) \<le> 1" by simp
  have h2: "resolve_inputs [(''x'', Tuple []), ([], Tuple [])] [''x'', []]
              = Inr [Some (Tuple []), None]" by simp
  have h3: "(1::nat) < length [''x'', []]" by simp
  have h4: "[''x'', []] ! 1 = []" by simp
  from t1 h1 have c1: "onnx_input_getitem [Some (1::nat)] 1 = Inr None" by blast
  from t1 have c2: "resolve_inputs [([], Tuple [])] (replicate 2 []) = Inr (replicate 2 None)"
    by blast
  from t2 h2 h3 h4 have c3: "(1::nat) < length [Some (Tuple []), None] \<and>
      [Some (Tuple []), None] ! 1 = None \<and>
      onnx_input_getitem [Some (Tuple []), None] (int 1) = Inr None" by blast
  from h1 c1 c2 h2 h3 h4 c3 show ?thesis by blast
qed

subsection \<open>Claim C10\<close>



section \<open>Attribute parsing\<close>

lemma parse_repeated_field_cases:
  "parse_repeated_field attrs name populated v = Inl e \<Longrightarrow>
     e = AssertionError ''Only one type of attr is allowed''"
  by (auto simp: parse_repeated_field_def split: if_splits)

lemma parse_attr_one_graphs:
  assumes "a_graphs a \<noteq> []"
  shows "parse_attr_one attrs a = Inl (NotImplementedError ''Field graphs is not supported in relax.'')
       \<or> parse_attr_one attrs a = Inl (AssertionError ''Only one type of attr is allowed'')"
  using assms unfolding parse_attr_one_def
  by (auto split: sum.splits dest: parse_repeated_field_cases)

lemma parse_attr_loop_fails:
  assumes "a \<in> set as" and "\<And>attrs. \<exists>e. parse_attr_one attrs a = Inl e"
  shows "\<exists>e. parse_attr_loop attrs as = Inl e"
  using assms(1)
proof (induction as arbitrary: attrs)
  case Nil
  then show ?case by simp
next
  case (Cons x xs)
  show ?case
  proof (cases "parse_attr_one attrs x")
    case (Inl e)
    then show ?thesis by simp
  next
    case (Inr attrs')
    have "x \<noteq> a" using Inr assms(2) [of attrs] by auto
    then have "a \<in> set xs" using Cons.prems by simp
    then show ?thesis using Cons.IH Inr by simp
  qed
qed

subsection \<open>Claim C7\<close>

text \<open>
  C7, as amended. An attribute whose repeated \<open>graphs\<close> field is populated is never
  accepted: the loop body raises NotImplementedError (or the AssertionError of an earlier
  repeated field of the same attribute), so \<open>_parse_attr\<close> fails on every attribute
  list that contains it; with no other repeated field populated the error is
  NotImplementedError. An attribute whose single \<open>g\<close> field is populated (and no
  tensor or repeated field) is accepted: the subgraph is stored in the attribute dict
  under the attribute's name.
\<close>

theorem repeated_graphs_attribute_rejected:
  "(a_graphs a \<noteq> [] \<longrightarrow>
      (parse_attr_one attrs a =
         Inl (NotImplementedError ''Field graphs is not supported in relax.'') \<or>
       parse_attr_one attrs a = Inl (AssertionError ''Only one type of attr is allowed'')) \<and>
      (a \<in> set as \<longrightarrow> (\<exists>e. parse_attr as = Inl e))) \<and>
   (a_graphs a \<noteq> [] \<and> a_floats a = [] \<and> a_ints a = [] \<and> a_strings a = [] \<and>
    a_tensors a = [] \<longrightarrow>
      parse_attr_one attrs a =
        Inl (NotImplementedError ''Field graphs is not supported in relax.'')) \<and>
   (a_g a = Some g \<and> a_t a = None \<and> a_graphs a = [] \<and> a_floats a = [] \<and> a_ints a = [] \<and>
    a_strings a = [] \<and> a_tensors a = [] \<longrightarrow>
      parse_attr_one attrs a = Inr (parse_scalar_fields attrs a) \<and>
      map_of (parse_scalar_fields attrs a) (a_name a) = Some (VGraph g))"
proof (intro conjI impI)
  assume g: "a_graphs a \<noteq> []"
  show "parse_attr_one attrs a =
         Inl (NotImplementedError ''Field graphs is not supported in relax.'') \<or>
       parse_attr_one attrs a = Inl (AssertionError ''Only one type of attr is allowed'')"
    by (rule parse_attr_one_graphs [OF g])
  assume "a \<in> set as"
  then show "\<exists>e. parse_attr as = Inl e"
    unfolding parse_attr_def
    by (rule parse_attr_loop_fails) (use parse_attr_one_graphs [OF g] in blast)
next
  assume "a_graphs a \<noteq> [] \<and> a_floats a = [] \<and> a_ints a = [] \<and> a_strings a = [] \<and>
    a_tensors a = []"
  then show "parse_attr_one attrs a =
        Inl (NotImplementedError ''Field graphs is not supported in relax.'')"
    by (simp add: parse_attr_one_def parse_repeated_field_def)
next
  assume h: "a_g a = Some g \<and> a_t a = None \<and> a_graphs a = [] \<and> a_floats a = [] \<and>
    a_ints a = [] \<and> a_strings a = [] \<and> a_tensors a = []"
  show m: "map_of (parse_scalar_fields attrs a) (a_name a) = Some (VGraph g)"
    using h by (simp add: parse_scalar_fields_def Let_def update_conv')
  show "parse_attr_one attrs a = Inr (parse_scalar_fields attrs a)"
    using h m by (simp add: parse_attr_one_def parse_repeated_field_def)
qed

text \<open>The theorem at an attribute with one subgraph in \<open>graphs\<close>, and at one with \<open>g\<close> set.\<close>

theorem repeated_graphs_attribute_rejected_witness:
  "a_graphs ((new_attribute ''body'')\<lparr>a_graphs := [''sub'']\<rparr>) \<noteq> [] \<and>
   parse_attr_one [] ((new_attribute ''body'')\<lparr>a_graphs := [''sub'']\<rparr>) =
     Inl (NotImplementedError ''Field graphs is not supported in relax.'') \<and>
   (new_attribute ''body'')\<lparr>a_graphs := [''sub'']\<rparr>
     \<in> set [new_attribute ''axis'' \<lparr>a_i := Some 1\<rparr>,
            (new_attribute ''body'')\<lparr>a_graphs := [''sub'']\<rparr>] \<and>
   (\<exists>e. parse_attr [new_attribute ''axis'' \<lparr>a_i := Some 1\<rparr>,
                     (new_attribute ''body'')\<lparr>a_graphs := [''sub'']\<rparr>] = Inl e) \<and>
   a_g ((new_attribute ''body'')\<lparr>a_g := Some ''sub''\<rparr>) = Some ''sub'' \<and>
   parse_attr_one [] ((new_attribute ''body'')\<lparr>a_g := Some ''sub''\<rparr>) =
     Inr (parse_scalar_fields [] ((new_attribute ''body'')\<lparr>a_g := Some ''sub''\<rparr>)) \<and>
   map_of (parse_scalar_fields [] ((new_attribute ''body'')\<lparr>a_g := Some ''sub''\<rparr>))
     (a_name ((new_attribute ''body'')\<lparr>a_g := Some ''sub''\<rparr>)) = Some (VGraph ''sub'')"
proof -
  let ?a = "(new_attribute ''body'')\<lparr>a_graphs := [''sub'']\<rparr>"
  let ?b = "(new_attribute ''body'')\<lparr>a_g := Some ''sub''\<rparr>"
  let ?as = "[new_attribute ''axis'' \<lparr>a_i := Some 1\<rparr>, ?a]"
  note ta = repeated_graphs_attribute_rejected [of ?a "[]" ?as "''sub''"]
  note tb = repeated_graphs_attribute_rejected [of ?b "[]" ?as "''sub''"]
  have h1: "a_graphs ?a \<noteq> []" by (simp add: new_attribute_def)
  have h2: "?a \<in> set ?as" by simp
  have h3: "a_graphs ?a \<noteq> [] \<and> a_floats ?a = [] \<and> a_ints ?a = [] \<and> a_strings ?a = [] \<and>
    a_tensors ?a = []" by (simp add: new_attribute_def)
  have h4: "a_g ?b = Some ''sub'' \<and> a_t ?b = None \<and> a_graphs ?b = [] \<and> a_floats ?b = [] \<and>
    a_ints ?b = [] \<and> a_strings ?b = [] \<and> a_tensors ?b = []" by (simp add: new_attribute_def)
  note c1 = ta [THEN conjunct2, THEN conjunct1, THEN mp, OF h3]
  note c2 = ta [THEN conjunct1, THEN mp, OF h1, THEN conjunct2, THEN mp, OF h2]
  note c3 = tb [THEN conjunct2, THEN conjunct2, THEN mp, OF h4]
  show ?thesis
    apply (intro conjI)
    apply (rule h1)
    apply (rule c1)
    apply (rule h2)
    apply (rule c2)
    apply (rule h4 [THEN conjunct1])
    apply (rule c3 [THEN conjunct1])
    apply (rule c3 [THEN conjunct2])
    done
qed

text \<open>
  The claim as stated fails: an attribute whose single-graph field \<open>g\<close> holds a
  subgraph is parsed without error and the subgraph enters the attribute dict.
\<close>

theorem single_graph_attribute_accepted:
  "parse_attr [(new_attribute ''body'')\<lparr>a_g := Some ''sub''\<rparr>] = Inr [(''body'', VGraph ''sub'')]"
  by (simp add: parse_attr_def parse_attr_one_def parse_scalar_fields_def
        parse_repeated_field_def new_attribute_def)

section \<open>The import as a whole\<close>

lemma parse_graph_initializers_frame:
  "parse_graph_initializers E self ts = (r, self') \<Longrightarrow>
     self_bb self' = self_bb self \<and> self_opset self' = self_opset self \<and>
     self_inputs self' = self_inputs self \<and> self_name_supply self' = self_name_supply self"
  by (induction ts arbitrary: self) (auto split: if_splits sum.splits)

lemma parse_graph_input_one_frame:
  "parse_graph_input_one E self i = (r, self') \<Longrightarrow>
     self_bb self' = self_bb self \<and> self_opset self' = self_opset self"
  unfolding parse_graph_input_one_def
  by (auto simp: Let_def split: sum.splits prod.splits option.splits if_splits)

lemma parse_graph_input_frame:
  "parse_graph_input E self is = (r, self') \<Longrightarrow>
     self_bb self' = self_bb self \<and> self_opset self' = self_opset self"
proof (induction "is" arbitrary: self)
  case Nil
  then show ?case by simp
next
  case (Cons i rest)
  obtain r1 s1 where one: "parse_graph_input_one E self i = (r1, s1)" by (cases "parse_graph_input_one E self i")
  note f1 = parse_graph_input_one_frame [OF one]
  show ?case
  proof (cases r1)
    case (Inl e)
    then show ?thesis using Cons.prems one f1 by simp
  next
    case (Inr u)
    then have "parse_graph_input E s1 rest = (r, self')" using Cons.prems one by simp
    then show ?thesis using Cons.IH f1 by simp
  qed
qed

lemma construct_node_frame:
  "construct_node E self node = (r, self') \<Longrightarrow> self_opset self' = self_opset self"
  unfolding construct_node_def
  by (auto split: sum.splits prod.splits option.splits list.splits if_splits)

lemma construct_nodes_frame:
  "construct_nodes E self ns = (r, self') \<Longrightarrow> self_opset self' = self_opset self"
proof (induction ns arbitrary: self)
  case Nil
  then show ?case by simp
next
  case (Cons n rest)
  obtain r1 s1 where one: "construct_node E self n = (r1, s1)" by (cases "construct_node E self n")
  note f1 = construct_node_frame [OF one]
  show ?case
  proof (cases r1)
    case (Inl e)
    then show ?thesis using Cons.prems one f1 by simp
  next
    case (Inr u)
    then have "construct_nodes E s1 rest = (r, self')" using Cons.prems one by simp
    then show ?thesis using Cons.IH f1 by simp
  qed
qed

lemma construct_nodes_append:
  "construct_nodes E self (pre @ rest) =
     (case construct_nodes E self pre of
        (Inl e, s) \<Rightarrow> (Inl e, s)
      | (Inr u, s) \<Rightarrow> construct_nodes E s rest)"
  by (induction pre arbitrary: self) (auto split: prod.splits sum.splits)

lemma construct_nodes_abort:
  assumes "construct_nodes E self pre = (Inr (), s)"
    and "construct_node E s node = (Inl e, s')"
  shows "construct_nodes E self (pre @ node # post) = (Inl e, s')"
  using assms by (simp add: construct_nodes_append)

lemma Constant_in_map: "map_of get_convert_map ''Constant'' \<noteq> None"
  by (simp add: get_convert_map_def)

lemma check_unsupported:
  assumes "node \<in> set nodes" "map_of get_convert_map (n_op_type node) = None"
  shows "check_for_unsupported_ops nodes = Inl (OpNotImplemented (unsupported_ops nodes))"
    and "n_op_type node \<in> set (unsupported_ops nodes)"
proof -
  have ne: "n_op_type node \<noteq> ''Constant''" using assms(2) Constant_in_map by auto
  show m: "n_op_type node \<in> set (unsupported_ops nodes)"
    using assms ne by (auto simp: unsupported_ops_def)
  then have "unsupported_ops nodes \<noteq> []" by auto
  then show "check_for_unsupported_ops nodes = Inl (OpNotImplemented (unsupported_ops nodes))"
    by (simp add: check_for_unsupported_ops_def)
qed

lemma import_rejects_unsupported:
  assumes i: "parse_graph_initializers E
               (self\<lparr>self_bb := bb_enter_main E (self_bb self), self_opset := Some opset\<rparr>)
               (g_initializer graph) = (Inr (), self1)"
    and p: "parse_graph_input E self1 (g_input graph) = (Inr (), self2)"
    and u: "node \<in> set (g_node graph)" "map_of get_convert_map (n_op_type node) = None"
  shows "importer_from_onnx E self graph opset =
           (Inl (OpNotImplemented (unsupported_ops (g_node graph))), self2)"
  unfolding importer_from_onnx_def using i p check_unsupported(1) [OF u] by simp

lemma import_aborts_at_node:
  assumes i: "parse_graph_initializers E
               (self\<lparr>self_bb := bb_enter_main E (self_bb self), self_opset := Some opset\<rparr>)
               (g_initializer graph) = (Inr (), self1)"
    and p: "parse_graph_input E self1 (g_input graph) = (Inr (), self2)"
    and c: "check_for_unsupported_ops (g_node graph) = Inr ()"
    and n: "g_node graph = pre @ node # post"
    and pre: "construct_nodes E self2 pre = (Inr (), s)"
    and node: "construct_node E s node = (Inl e, s')"
  shows "importer_from_onnx E self graph opset = (Inl e, s')"
  unfolding importer_from_onnx_def
  using i p c construct_nodes_abort [OF pre node, of post] n by simp

lemma import_opset:
  assumes i: "parse_graph_initializers E
               (self\<lparr>self_bb := bb_enter_main E (self_bb self), self_opset := Some opset\<rparr>)
               (g_initializer graph) = (Inr (), self1)"
    and p: "parse_graph_input E self1 (g_input graph) = (Inr (), self2)"
    and pre: "construct_nodes E self2 pre = (Inr (), s)"
  shows "self_opset s = Some opset" "self_bb self2 = bb_enter_main E (self_bb self)"
  using parse_graph_initializers_frame [OF i] parse_graph_input_frame [OF p]
    construct_nodes_frame [OF pre] by simp_all

lemma construct_node_converter_error:
  assumes "self_opset s = Some opset"
    and "parse_attr (n_attribute node) = Inr attr0"
    and "resolve_inputs (self_nodes s) (n_input node) = Inr inputs"
    and "convert_operator E (self_bb s) (n_op_type node) inputs
           (AList.update ''tvm_custom'' (VCustom (n_name node) (length (n_output node))) attr0)
           opset = (Inl e, self_bb s)"
  shows "construct_node E s node = (Inl e, s)"
  using assms by (simp add: construct_node_def)

lemma pgi_conv_indep:
  "parse_graph_initializers
     (E\<lparr>bb_normalize := nz, bb_emit := em, bb_emit_te := te, other_impl := oi, relay_impl := ri\<rparr>)
     self ts = parse_graph_initializers E self ts"
  by (induction ts arbitrary: self)
     (simp_all add: parse_array_def get_numpy_def split: sum.splits)

lemma sanitize_conv_indep:
  "sanitize_name
     (E\<lparr>bb_normalize := nz, bb_emit := em, bb_emit_te := te, other_impl := oi, relay_impl := ri\<rparr>)
     ns name = sanitize_name E ns name"
  by (cases name) (simp_all add: Let_def)

lemma get_type_conv_indep:
  "get_type
     (E\<lparr>bb_normalize := nz, bb_emit := em, bb_emit_te := te, other_impl := oi, relay_impl := ri\<rparr>)
     t = get_type E t"
  by (simp add: get_type_def)

lemma get_info_conv_indep:
  "get_info
     (E\<lparr>bb_normalize := nz, bb_emit := em, bb_emit_te := te, other_impl := oi, relay_impl := ri\<rparr>)
     i = get_info E i"
  unfolding get_info_def get_type_conv_indep by (rule refl)

lemma pgi1_conv_indep:
  "parse_graph_input_one
     (E\<lparr>bb_normalize := nz, bb_emit := em, bb_emit_te := te, other_impl := oi, relay_impl := ri\<rparr>)
     self i = parse_graph_input_one E self i"
  unfolding parse_graph_input_one_def get_info_conv_indep sanitize_conv_indep by (rule refl)

lemma pgin_conv_indep:
  "parse_graph_input
     (E\<lparr>bb_normalize := nz, bb_emit := em, bb_emit_te := te, other_impl := oi, relay_impl := ri\<rparr>)
     self is = parse_graph_input E self is"
  by (induction "is" arbitrary: self)
     (simp_all add: pgi1_conv_indep split: prod.splits sum.splits)

text \<open>The first two steps of the import on the example graphs.\<close>

lemmas example_defs = example_tensor_def example_info_def example_node_def example_graph_def
  example_model_def example_importer_def importer_init_def

lemmas demo_defs = demo_env_def demo_emit_def demo_call_def spec_fresh_name_def

lemma example_initializers:
  "parse_graph_initializers demo_env
     (example_importer\<lparr>self_bb := bb_enter_main demo_env (self_bb example_importer),
                        self_opset := Some 13\<rparr>)
     (g_initializer (example_graph [''w''] ins nodes outs)) =
   (Inr (), example_importer\<lparr>self_opset := Some 13,
              self_nodes := [(''w'', Constant (NDArray ''int64'' [2] [97, 98]))]\<rparr>)"
  by (simp add: example_defs demo_defs py_isspace_def parse_array_def get_numpy_def)

lemma example_inputs:
  "parse_graph_input demo_env
     (example_importer\<lparr>self_opset := Some 13,
              self_nodes := [(''w'', Constant (NDArray ''int64'' [2] [97, 98]))]\<rparr>)
     (g_input (example_graph inits [''x''] nodes outs)) =
   (Inr (), example_bound)"
  by (simp add: example_defs example_bound_def demo_defs parse_graph_input_one_def
        get_info_def get_type_def py_isalpha_def Let_def)

subsection \<open>Claim C3\<close>

text \<open>
  C3, as amended. For every graph whose initializers load and whose inputs bind (the two
  steps \<open>from_onnx\<close> runs first), if some node's operator name is not a key of the
  converter map, the import fails with OpNotImplemented, naming that operator. The
  importer is left as it was after the inputs were bound: no node output is in
  \<open>_nodes\<close>, and the block builder has only been opened. The outcome is the same
  whatever the converters and the emitting operations of the block builder are, so none of
  them ran. The entry point returns the same error.
\<close>

theorem unsupported_operator_rejected_before_conversion:
  assumes i: "parse_graph_initializers E
               (self\<lparr>self_bb := bb_enter_main E (self_bb self), self_opset := Some opset\<rparr>)
               (g_initializer graph) = (Inr (), self1)"
    and p: "parse_graph_input E self1 (g_input graph) = (Inr (), self2)"
    and u: "node \<in> set (g_node graph)" "map_of get_convert_map (n_op_type node) = None"
  shows "importer_from_onnx E self graph opset =
           (Inl (OpNotImplemented (unsupported_ops (g_node graph))), self2) \<and>
         n_op_type node \<in> set (unsupported_ops (g_node graph)) \<and>
         self_bb self2 = bb_enter_main E (self_bb self) \<and>
         importer_from_onnx
           (E\<lparr>bb_normalize := nz, bb_emit := em, bb_emit_te := te,
              other_impl := oi, relay_impl := ri\<rparr>) self graph opset =
           importer_from_onnx E self graph opset \<and>
         (self = importer_init E shape dtype sanitize \<and> graph = m_graph model \<and>
          3 \<le> m_ir_version model \<and>
          opset = (case opset_arg of None \<Rightarrow> opset_in_model (m_opset_import model)
                   | Some v \<Rightarrow> v) \<longrightarrow>
            from_onnx E model shape dtype opset_arg sanitize =
              Inl (OpNotImplemented (unsupported_ops (g_node graph))))"
proof (intro conjI impI)
  let ?E = "E\<lparr>bb_normalize := nz, bb_emit := em, bb_emit_te := te,
              other_impl := oi, relay_impl := ri\<rparr>"
  show r: "importer_from_onnx E self graph opset =
           (Inl (OpNotImplemented (unsupported_ops (g_node graph))), self2)"
    by (rule import_rejects_unsupported [OF i p u])
  show "n_op_type node \<in> set (unsupported_ops (g_node graph))"
    by (rule check_unsupported(2) [OF u])
  show "self_bb self2 = bb_enter_main E (self_bb self)"
    using parse_graph_initializers_frame [OF i] parse_graph_input_frame [OF p] by simp
  have i': "parse_graph_initializers ?E
               (self\<lparr>self_bb := bb_enter_main ?E (self_bb self), self_opset := Some opset\<rparr>)
               (g_initializer graph) = (Inr (), self1)"
    using i by (simp add: pgi_conv_indep)
  have p': "parse_graph_input ?E self1 (g_input graph) = (Inr (), self2)"
    using p by (simp add: pgin_conv_indep)
  show "importer_from_onnx ?E self graph opset = importer_from_onnx E self graph opset"
    using import_rejects_unsupported [OF i' p' u] r by simp
  assume "self = importer_init E shape dtype sanitize \<and> graph = m_graph model \<and>
          3 \<le> m_ir_version model \<and>
          opset = (case opset_arg of None \<Rightarrow> opset_in_model (m_opset_import model)
                   | Some v \<Rightarrow> v)"
  then show "from_onnx E model shape dtype opset_arg sanitize =
              Inl (OpNotImplemented (unsupported_ops (g_node graph)))"
    using r by (simp add: from_onnx_def)
qed

text \<open>
  The theorem at a graph with initializer w, input x and one node of the unknown operator
  Foo: the symbol table holds w and x only.
\<close>

theorem unsupported_operator_rejected_before_conversion_witness:
  "fst (parse_graph_initializers demo_env
     (example_importer\<lparr>self_bb := bb_enter_main demo_env (self_bb example_importer),
                        self_opset := Some 13\<rparr>)
     (g_initializer (example_graph [''w''] [''x'']
        [example_node ''Foo'' [''x''] [''y''] []] [''y'']))) = Inr () \<and>
   example_node ''Foo'' [''x''] [''y''] []
     \<in> set (g_node (example_graph [''w''] [''x'']
                      [example_node ''Foo'' [''x''] [''y''] []] [''y''])) \<and>
   map_of get_convert_map (n_op_type (example_node ''Foo'' [''x''] [''y''] [])) = None \<and>
   importer_from_onnx demo_env example_importer
     (example_graph [''w''] [''x''] [example_node ''Foo'' [''x''] [''y''] []] [''y'']) 13 =
     (Inl (OpNotImplemented [''Foo'']),
      example_bound) \<and>
   from_onnx demo_env
     (example_model [''w''] [''x''] [example_node ''Foo'' [''x''] [''y''] []] [''y''])
     None (DtypeStr ''float32'') None True = Inl (OpNotImplemented [''Foo''])"
proof -
  let ?node = "example_node ''Foo'' [''x''] [''y''] []"
  let ?g = "example_graph [''w''] [''x''] [?node] [''y'']"
  let ?m = "example_model [''w''] [''x''] [?node] [''y'']"
  have u1: "?node \<in> set (g_node ?g)" by (simp add: example_graph_def)
  have u2: "map_of get_convert_map (n_op_type ?node) = None"
    by (simp add: example_node_def get_convert_map_def)
  have ops: "unsupported_ops (g_node ?g) = [''Foo'']"
    by (simp add: unsupported_ops_def example_graph_def example_node_def get_convert_map_def)
  have top: "example_importer = importer_init demo_env None (DtypeStr ''float32'') True \<and>
     ?g = m_graph ?m \<and> 3 \<le> m_ir_version ?m \<and>
     13 = (case None of None \<Rightarrow> opset_in_model (m_opset_import ?m) | Some v \<Rightarrow> v)"
    by (simp add: example_model_def example_importer_def)
  note t = unsupported_operator_rejected_before_conversion
    [OF example_initializers example_inputs u1 u2, unfolded ops]
  note c1 = t [THEN conjunct1]
  note c5 = t [THEN conjunct2, THEN conjunct2, THEN conjunct2, THEN conjunct2, THEN mp, OF top]
  show ?thesis
    apply (intro conjI)
    apply (simp add: example_initializers)
    apply (rule u1)
    apply (rule u2)
    apply (rule c1)
    apply (rule c5)
    done
qed

text \<open>
  The claim as stated fails: when an initializer has a blank name, the import of a graph
  with an unknown operator fails with ValueError, raised before the operators are checked.
\<close>

theorem blank_initializer_name_raises_first:
  "from_onnx demo_env
     (example_model ['' ''] [''x''] [example_node ''Foo'' [''x''] [''y''] []] [''y''])
     None (DtypeStr ''float32'') None True = Inl (ValueError ''Tensor's name is required.'')"
  by (simp add: from_onnx_def importer_from_onnx_def example_defs py_isspace_def)

section \<open>Evaluating the import in the example environment\<close>

lemma import_success:
  assumes "parse_graph_initializers E
             (self\<lparr>self_bb := bb_enter_main E (self_bb self), self_opset := Some opset\<rparr>)
             (g_initializer graph) = (Inr (), self1)"
    and "parse_graph_input E self1 (g_input graph) = (Inr (), self2)"
    and "check_for_unsupported_ops (g_node graph) = Inr ()"
    and "construct_nodes E self2 (g_node graph) = (Inr (), self3)"
    and "lookup_outputs (self_nodes self3) (map vi_name (g_output graph)) = Inr outputs"
    and "bb_emit_output E (self_bb self3) (wrap_outputs outputs) = (Inr output_var, bb4)"
    and "bb_emit_func_output E bb4 output_var (filter is_Var (map snd (self_inputs self3)))
           = (Inr (), bb5)"
  shows "importer_from_onnx E self graph opset = (Inr (bb_get E bb5), self3\<lparr>self_bb := bb5\<rparr>)"
  unfolding importer_from_onnx_def using assms by simp

lemma check_supported:
  assumes "list_all (\<lambda>node. map_of get_convert_map (n_op_type node) \<noteq> None) nodes"
  shows "check_for_unsupported_ops nodes = Inr ()"
proof -
  have "filter (\<lambda>op_name. map_of get_convert_map op_name = None \<and> op_name \<noteq> ''Constant'')
          (map n_op_type nodes) = []"
    using assms by (induction nodes) auto
  then show ?thesis by (simp add: check_for_unsupported_ops_def unsupported_ops_def)
qed

lemma parse_attr_Nil: "parse_attr [] = Inr []"
  by (simp add: parse_attr_def)

lemma example_selectors:
  "g_node (example_graph a b c d) = c"
  "g_output (example_graph a b c d) = map example_info d"
  "m_graph (example_model a b c d) = example_graph a b c d"
  "m_ir_version (example_model a b c d) = 8"
  "m_opset_import (example_model a b c d) = [([], 13)]"
  "vi_name (example_info n) = n"
  "n_op_type (example_node op ins outs ats) = op"
  "n_input (example_node op ins outs ats) = ins"
  "n_output (example_node op ins outs ats) = outs"
  "n_attribute (example_node op ins outs ats) = ats"
  "n_name (example_node op ins outs ats) = ''n0''"
  by (simp_all add: example_graph_def example_model_def example_info_def example_node_def)

lemma example_bound_fields:
  "self_opset example_bound = Some 13"
  "self_nodes example_bound =
     [(''w'', Constant (NDArray ''int64'' [2] [97, 98])),
      (''x'', Var ''x'' [DimValue 2, DimDyn] (Some ''float32''))]"
  "self_inputs example_bound = [(''x'', Var ''x'' [DimValue 2, DimDyn] (Some ''float32''))]"
  "self_bb example_bound = \<lparr> db_bindings = [], db_output = None \<rparr>"
  by (simp_all add: example_bound_def example_importer_def importer_init_def demo_env_def)

lemma demo_normalize: "bb_normalize demo_env bb (Some e) = (Inr e, bb)"
  by (simp add: demo_env_def)

lemma demo_tuple_fields: "tuple_fields demo_env op = None"
  by (simp add: demo_env_def)

lemma unpack_demo: "\<not> is_Tuple op \<Longrightarrow> unpack_outputs demo_env bb op = (Inr (op, 1), bb)"
  by (simp add: unpack_outputs_def demo_tuple_fields)

lemma demo_emit_output:
  "bb_emit_output demo_env \<lparr> db_bindings = [], db_output = None \<rparr> e =
     (Inr (Var ''gv0'' [] None), \<lparr> db_bindings = [(''gv0'', e)], db_output = None \<rparr>)"
  by (simp add: demo_env_def demo_emit_def digit_char_def Let_def)

lemma demo_emit_func_output:
  "bb_emit_func_output demo_env bb out params = (Inr (), bb\<lparr>db_output := Some (out, params)\<rparr>)"
  by (simp add: demo_env_def)

lemma demo_get:
  "bb_get demo_env \<lparr> db_bindings = bs, db_output = Some (out, params) \<rparr> = IRModule params bs (Some out)"
  by (simp add: demo_env_def)

lemma step_reshape:
  "construct_node demo_env example_bound (example_node ''Reshape'' [''w'', ''x''] [''y''] []) =
   (Inr (), example_bound\<lparr>self_nodes :=
      self_nodes example_bound @ [(''y'', Constant (NDArray ''int64'' [2] [97, 98]))]\<rparr>)"
  by (simp add: construct_node_def example_selectors example_bound_fields parse_attr_Nil
        convert_operator_Reshape Reshape_impl_v13_def getitem_small demo_normalize unpack_demo)

subsection \<open>Claim C4\<close>

text \<open>
  C4, as amended. Take an import whose initializers loaded, whose inputs bound, whose
  operators are all known, and that has reached a node whose attributes parse and whose
  input names resolve. If the node is a Tile whose repeats input is not a constant, or a
  Slice one of whose starts, ends, axes or steps inputs is present and not a constant,
  the import fails with the converter's ValueError and returns no program. A Reshape
  whose shape input is not a constant does not fail: at every opset the converter returns
  its data input unchanged. The entry point returns what the importer's method returns.
\<close>

theorem dynamic_parameter_handling:
  assumes i: "parse_graph_initializers E
               (self\<lparr>self_bb := bb_enter_main E (self_bb self), self_opset := Some opset\<rparr>)
               (g_initializer graph) = (Inr (), self1)"
    and p: "parse_graph_input E self1 (g_input graph) = (Inr (), self2)"
    and c: "check_for_unsupported_ops (g_node graph) = Inr ()"
    and n: "g_node graph = pre @ node # post"
    and pre: "construct_nodes E self2 pre = (Inr (), s)"
    and a: "parse_attr (n_attribute node) = Inr attr0"
    and r: "resolve_inputs (self_nodes s) (n_input node) = Inr inputs"
  shows "(n_op_type node = ''Tile'' \<and>
          \<not> is_Constant (if 1 < length inputs then inputs ! 1 else None) \<longrightarrow>
            importer_from_onnx E self graph opset =
              (Inl (ValueError ''Dynamic reps for Tile are supported yet.''), s)) \<and>
         (n_op_type node = ''Slice'' \<and> k \<in> {1, 2, 3, 4} \<and> k < length inputs \<and>
          inputs ! k \<noteq> None \<and> \<not> is_Constant (inputs ! k) \<longrightarrow>
            importer_from_onnx E self graph opset =
              (Inl (ValueError ''Only constant Slice parameters are currently supported.''), s)) \<and>
         (\<not> is_Constant (if 1 < length inputs then inputs ! 1 else None) \<longrightarrow>
            convert_operator E bb ''Reshape'' inputs attr opset =
              (Inr (if 0 < length inputs then inputs ! 0 else None), bb)) \<and>
         (self = importer_init E shape dtype sanitize \<and> graph = m_graph model \<and>
          3 \<le> m_ir_version model \<and>
          opset = (case opset_arg of None \<Rightarrow> opset_in_model (m_opset_import model)
                   | Some v \<Rightarrow> v) \<longrightarrow>
            from_onnx E model shape dtype opset_arg sanitize =
              fst (importer_from_onnx E self graph opset))"
proof (intro conjI impI)
  note os = import_opset(1) [OF i p pre]
  let ?attr = "AList.update ''tvm_custom'' (VCustom (n_name node) (length (n_output node))) attr0"
  {
    assume h: "n_op_type node = ''Tile'' \<and>
          \<not> is_Constant (if 1 < length inputs then inputs ! 1 else None)"
    then have "convert_operator E (self_bb s) (n_op_type node) inputs ?attr opset =
        (Inl (ValueError ''Dynamic reps for Tile are supported yet.''), self_bb s)"
      using Tile_dynamic [of inputs E "self_bb s" ?attr] by (simp add: convert_operator_Tile)
    then have "construct_node E s node =
        (Inl (ValueError ''Dynamic reps for Tile are supported yet.''), s)"
      by (rule construct_node_converter_error [OF os a r])
    then show "importer_from_onnx E self graph opset =
              (Inl (ValueError ''Dynamic reps for Tile are supported yet.''), s)"
      by (rule import_aborts_at_node [OF i p c n pre])
  }
  {
    assume h: "n_op_type node = ''Slice'' \<and> k \<in> {1, 2, 3, 4} \<and> k < length inputs \<and>
          inputs ! k \<noteq> None \<and> \<not> is_Constant (inputs ! k)"
    then have "Slice_impl_v13 E (self_bb s) inputs ?attr =
        (Inl (ValueError ''Only constant Slice parameters are currently supported.''), self_bb s)"
      by (intro Slice_dynamic [of k]) blast+
    then have "convert_operator E (self_bb s) (n_op_type node) inputs ?attr opset =
        (Inl (ValueError ''Only constant Slice parameters are currently supported.''), self_bb s)"
      using h by (simp add: convert_operator_Slice)
    then have "construct_node E s node =
        (Inl (ValueError ''Only constant Slice parameters are currently supported.''), s)"
      by (rule construct_node_converter_error [OF os a r])
    then show "importer_from_onnx E self graph opset =
              (Inl (ValueError ''Only constant Slice parameters are currently supported.''), s)"
      by (rule import_aborts_at_node [OF i p c n pre])
  }
  {
    assume "\<not> is_Constant (if 1 < length inputs then inputs ! 1 else None)"
    then show "convert_operator E bb ''Reshape'' inputs attr opset =
              (Inr (if 0 < length inputs then inputs ! 0 else None), bb)"
      using Reshape_dynamic [of inputs E bb attr] by (simp add: convert_operator_Reshape)
  }
  {
    assume "self = importer_init E shape dtype sanitize \<and> graph = m_graph model \<and>
          3 \<le> m_ir_version model \<and>
          opset = (case opset_arg of None \<Rightarrow> opset_in_model (m_opset_import model)
                   | Some v \<Rightarrow> v)"
    then show "from_onnx E model shape dtype opset_arg sanitize =
              fst (importer_from_onnx E self graph opset)"
      by (simp add: from_onnx_def)
  }
qed

text \<open>
  The claim as stated fails for Reshape: with the graph input x as the shape input, the
  import succeeds and the output y is the initializer w, not reshaped.
\<close>

theorem dynamic_reshape_imports:
  "from_onnx demo_env
     (example_model [''w''] [''x''] [example_node ''Reshape'' [''w'', ''x''] [''y''] []] [''y''])
     None (DtypeStr ''float32'') None True =
   Inr (IRModule [Var ''x'' [DimValue 2, DimDyn] (Some ''float32'')]
          [(''gv0'', Constant (NDArray ''int64'' [2] [97, 98]))]
          (Some (Var ''gv0'' [] None)))"
proof -
  let ?g = "example_graph [''w''] [''x''] [example_node ''Reshape'' [''w'', ''x''] [''y''] []] [''y'']"
  have c: "check_for_unsupported_ops (g_node ?g) = Inr ()"
    by (rule check_supported) (simp add: example_selectors get_convert_map_def)
  have n: "construct_nodes demo_env example_bound (g_node ?g) =
     (Inr (), example_bound\<lparr>self_nodes :=
        self_nodes example_bound @ [(''y'', Constant (NDArray ''int64'' [2] [97, 98]))]\<rparr>)"
    by (simp add: example_selectors step_reshape)
  have o: "lookup_outputs
     (self_nodes (example_bound\<lparr>self_nodes :=
        self_nodes example_bound @ [(''y'', Constant (NDArray ''int64'' [2] [97, 98]))]\<rparr>))
     (map vi_name (g_output ?g)) = Inr [Constant (NDArray ''int64'' [2] [97, 98])]"
    by (simp add: example_selectors example_bound_fields)
  have e: "bb_emit_output demo_env
     (self_bb (example_bound\<lparr>self_nodes :=
        self_nodes example_bound @ [(''y'', Constant (NDArray ''int64'' [2] [97, 98]))]\<rparr>))
     (wrap_outputs [Constant (NDArray ''int64'' [2] [97, 98])]) =
     (Inr (Var ''gv0'' [] None),
      \<lparr> db_bindings = [(''gv0'', Constant (NDArray ''int64'' [2] [97, 98]))], db_output = None \<rparr>)"
    by (simp add: example_bound_fields demo_emit_output)
  note r = import_success [OF example_initializers example_inputs c n o e demo_emit_func_output]
  show ?thesis
    unfolding from_onnx_def example_importer_def [symmetric]
    by (simp add: example_selectors r demo_get example_bound_fields)
qed

text \<open>
  The theorem at the example graph with one node whose second input is the graph input x:
  a Tile node and a Slice node abort the import, the Reshape converter returns w.
\<close>

theorem dynamic_parameter_handling_witness:
  "n_op_type (example_node ''Tile'' [''w'', ''x''] [''y''] []) = ''Tile'' \<and>
   resolve_inputs (self_nodes example_bound)
     (n_input (example_node ''Tile'' [''w'', ''x''] [''y''] [])) =
     Inr [Some (Constant (NDArray ''int64'' [2] [97, 98])),
          Some (Var ''x'' [DimValue 2, DimDyn] (Some ''float32''))] \<and>
   \<not> is_Constant (Some (Var ''x'' [DimValue 2, DimDyn] (Some ''float32''))) \<and>
   importer_from_onnx demo_env example_importer
     (example_graph [''w''] [''x''] [example_node ''Tile'' [''w'', ''x''] [''y''] []] [''y'']) 13 =
     (Inl (ValueError ''Dynamic reps for Tile are supported yet.''), example_bound) \<and>
   from_onnx demo_env
     (example_model [''w''] [''x''] [example_node ''Tile'' [''w'', ''x''] [''y''] []] [''y''])
     None (DtypeStr ''float32'') None True =
     Inl (ValueError ''Dynamic reps for Tile are supported yet.'') \<and>
   importer_from_onnx demo_env example_importer
     (example_graph [''w''] [''x''] [example_node ''Slice'' [''w'', ''x''] [''y''] []] [''y'']) 13 =
     (Inl (ValueError ''Only constant Slice parameters are currently supported.''),
      example_bound) \<and>
   convert_operator demo_env (self_bb example_bound) ''Reshape''
     [Some (Constant (NDArray ''int64'' [2] [97, 98])),
      Some (Var ''x'' [DimValue 2, DimDyn] (Some ''float32''))] [] 13 =
     (Inr (Some (Constant (NDArray ''int64'' [2] [97, 98]))), self_bb example_bound)"
proof -
  let ?ins = "[Some (Constant (NDArray ''int64'' [2] [97, 98])),
          Some (Var ''x'' [DimValue 2, DimDyn] (Some ''float32''))]"
  let ?tile = "example_node ''Tile'' [''w'', ''x''] [''y''] []"
  let ?slice = "example_node ''Slice'' [''w'', ''x''] [''y''] []"
  let ?gt = "example_graph [''w''] [''x''] [?tile] [''y'']"
  let ?gs = "example_graph [''w''] [''x''] [?slice] [''y'']"
  let ?mt = "example_model [''w''] [''x''] [?tile] [''y'']"
  have ct: "check_for_unsupported_ops (g_node ?gt) = Inr ()"
    by (rule check_supported) (simp add: example_selectors get_convert_map_def)
  have cs: "check_for_unsupported_ops (g_node ?gs) = Inr ()"
    by (rule check_supported) (simp add: example_selectors get_convert_map_def)
  have nt: "g_node ?gt = [] @ ?tile # []" by (simp add: example_selectors)
  have ns: "g_node ?gs = [] @ ?slice # []" by (simp add: example_selectors)
  have pre: "construct_nodes demo_env example_bound [] = (Inr (), example_bound)" by simp
  have at: "parse_attr (n_attribute ?tile) = Inr []"
    by (simp add: example_selectors parse_attr_Nil)
  have as: "parse_attr (n_attribute ?slice) = Inr []"
    by (simp add: example_selectors parse_attr_Nil)
  have rt: "resolve_inputs (self_nodes example_bound) (n_input ?tile) = Inr ?ins"
    by (simp add: example_selectors example_bound_fields)
  have rs: "resolve_inputs (self_nodes example_bound) (n_input ?slice) = Inr ?ins"
    by (simp add: example_selectors example_bound_fields)
  have h0: "n_op_type ?tile = ''Tile''" by (simp add: example_selectors)
  have hd: "\<not> is_Constant (Some (Var ''x'' [DimValue 2, DimDyn] (Some ''float32'')))" by simp
  have ht: "n_op_type ?tile = ''Tile'' \<and>
            \<not> is_Constant (if 1 < length ?ins then ?ins ! 1 else None)"
    by (simp add: example_selectors)
  have hs: "n_op_type ?slice = ''Slice'' \<and> (1::nat) \<in> {1, 2, 3, 4} \<and> 1 < length ?ins \<and>
            ?ins ! 1 \<noteq> None \<and> \<not> is_Constant (?ins ! 1)"
    by (simp add: example_selectors)
  have hr: "\<not> is_Constant (if 1 < length ?ins then ?ins ! 1 else None)" by simp
  have top: "example_importer = importer_init demo_env None (DtypeStr ''float32'') True \<and>
     ?gt = m_graph ?mt \<and> 3 \<le> m_ir_version ?mt \<and>
     13 = (case None of None \<Rightarrow> opset_in_model (m_opset_import ?mt) | Some v \<Rightarrow> v)"
    by (simp add: example_selectors example_importer_def)
  note tt = dynamic_parameter_handling
    [OF example_initializers example_inputs ct nt pre at rt,
     where k = 1 and bb = "self_bb example_bound" and attr = "[]"
       and shape = None and dtype = "DtypeStr ''float32''" and sanitize = True
       and model = ?mt and opset_arg = None]
  note ts = dynamic_parameter_handling
    [OF example_initializers example_inputs cs ns pre as rs,
     where k = 1 and bb = "self_bb example_bound" and attr = "[]"
       and shape = None and dtype = "DtypeStr ''float32''" and sanitize = True
       and model = ?mt and opset_arg = None]
  note c1 = tt [THEN conjunct1, THEN mp, OF ht]
  note c2 = ts [THEN conjunct2, THEN conjunct1, THEN mp, OF hs]
  have c3: "convert_operator demo_env (self_bb example_bound) ''Reshape'' ?ins [] 13 =
     (Inr (Some (Constant (NDArray ''int64'' [2] [97, 98]))), self_bb example_bound)"
    using tt [THEN conjunct2, THEN conjunct2, THEN conjunct1, THEN mp, OF hr] by simp
  have c4: "from_onnx demo_env ?mt None (DtypeStr ''float32'') None True =
     Inl (ValueError ''Dynamic reps for Tile are supported yet.'')"
    using tt [THEN conjunct2, THEN conjunct2, THEN conjunct2, THEN mp, OF top] c1 by simp
  show ?thesis
    apply (intro conjI)
    apply (rule h0)
    apply (rule rt)
    apply (rule hd)
    apply (rule c1)
    apply (rule c4)
    apply (rule c2)
    apply (rule c3)
    done
qed

lemma step_identity:
  "construct_node demo_env
     (example_importer\<lparr>self_opset := Some 13,
              self_nodes := [(''w'', Constant (NDArray ''int64'' [2] [97, 98]))]\<rparr>)
     (example_node ''Identity'' [''w''] [''y''] []) =
   (Inr (), example_importer\<lparr>self_opset := Some 13,
              self_nodes := [(''w'', Constant (NDArray ''int64'' [2] [97, 98])),
                             (''y'', Constant (NDArray ''int64'' [2] [97, 98]))]\<rparr>)"
  by (simp add: construct_node_def example_selectors example_importer_def importer_init_def
        parse_attr_Nil convert_operator_def get_convert_map_def impl_versions_def
        get_converter_single call_impl_def Identity_impl_v1_def getitem_small
        demo_normalize unpack_demo)

subsection \<open>Claim C5\<close>

text \<open>
  C5. The docstrings and the return annotations of both \<open>from_onnx\<close> functions promise
  a pair of the module and a dict of parameters. The code returns \<open>self.bb.get()\<close>, the
  module alone: initializers become constants inside the program and no parameter dict is
  built. The import of a graph with the initializer w and an Identity node returns the
  module only.
\<close>

theorem from_onnx_returns_module_only:
  "from_onnx demo_env
     (example_model [''w''] [] [example_node ''Identity'' [''w''] [''y''] []] [''y''])
     None (DtypeStr ''float32'') None True =
   Inr (IRModule []
          [(''gv0'', Constant (NDArray ''int64'' [2] [97, 98]))]
          (Some (Var ''gv0'' [] None)))"
proof -
  let ?g = "example_graph [''w''] [] [example_node ''Identity'' [''w''] [''y''] []] [''y'']"
  let ?s1 = "example_importer\<lparr>self_opset := Some 13,
              self_nodes := [(''w'', Constant (NDArray ''int64'' [2] [97, 98]))]\<rparr>"
  let ?s3 = "example_importer\<lparr>self_opset := Some 13,
              self_nodes := [(''w'', Constant (NDArray ''int64'' [2] [97, 98])),
                             (''y'', Constant (NDArray ''int64'' [2] [97, 98]))]\<rparr>"
  have p: "parse_graph_input demo_env ?s1 (g_input ?g) = (Inr (), ?s1)"
    by (simp add: example_graph_def)
  have c: "check_for_unsupported_ops (g_node ?g) = Inr ()"
    by (rule check_supported) (simp add: example_selectors get_convert_map_def)
  have n: "construct_nodes demo_env ?s1 (g_node ?g) = (Inr (), ?s3)"
    by (simp add: example_selectors step_identity)
  have o: "lookup_outputs (self_nodes ?s3) (map vi_name (g_output ?g))
             = Inr [Constant (NDArray ''int64'' [2] [97, 98])]"
    by (simp add: example_selectors)
  have e: "bb_emit_output demo_env (self_bb ?s3)
             (wrap_outputs [Constant (NDArray ''int64'' [2] [97, 98])]) =
     (Inr (Var ''gv0'' [] None),
      \<lparr> db_bindings = [(''gv0'', Constant (NDArray ''int64'' [2] [97, 98]))], db_output = None \<rparr>)"
    by (simp add: example_importer_def importer_init_def demo_env_def demo_emit_def
          digit_char_def Let_def)
  note r = import_success [OF example_initializers p c n o e demo_emit_func_output]
  have "fst (importer_from_onnx demo_env example_importer ?g 13) =
          Inr (IRModule [] [(''gv0'', Constant (NDArray ''int64'' [2] [97, 98]))]
                 (Some (Var ''gv0'' [] None)))"
    using r by (simp add: demo_get example_importer_def importer_init_def)
  then show ?thesis
    unfolding from_onnx_def example_importer_def [symmetric]
    by (simp add: example_selectors)
qed

section \<open>The symbol table\<close>

lemma bind_single_output:
  "bind_outputs nodes op [(k, 0)] = (Inr (), nodes') \<Longrightarrow>
     \<exists>v. nodes' = AList.update k v nodes"
  by (auto split: sum.splits)

lemma construct_node_single_output:
  assumes "construct_node E self node = (Inr (), self')" and "n_output node = [k]"
  shows "\<exists>op. self_nodes self' = AList.update k op (self_nodes self)"
  using assms unfolding construct_node_def
  by (auto split: sum.splits prod.splits option.splits if_splits dest: bind_single_output)

lemma unpack_outputs_tuple:
  assumes "unpack_outputs E bb op1 = (Inr (op, n), bb')" and "n \<noteq> 1"
  shows "\<exists>fs. op = Tuple fs \<and> length fs = n"
  using assms unfolding unpack_outputs_def
  by (cases op1) (auto split: option.splits prod.splits sum.splits)

lemma bind_outputs_tuple:
  "\<forall>p\<in>set ps. snd p < length fs \<Longrightarrow>
     bind_outputs nodes (Tuple fs) ps =
       (Inr (), fold (\<lambda>p. AList.update (fst p) (fs ! snd p)) ps nodes)"
proof (induction ps arbitrary: nodes)
  case Nil
  then show ?case by simp
next
  case (Cons p ps)
  obtain k i where p: "p = (k, i)" by (cases p)
  have "i < length fs" using Cons.prems p by simp
  then have "tuple_getitem (Tuple fs) i = Inr (fs ! i)"
    by (simp add: tuple_getitem_def py_getitem_def)
  then show ?case using Cons p by simp
qed

lemma map_of_fold_update_other:
  "k \<notin> fst ` set ps \<Longrightarrow>
     map_of (fold (\<lambda>p. AList.update (fst p) (f p)) ps nodes) k = map_of nodes k"
  by (induction ps arbitrary: nodes) (auto simp: update_conv')

lemma map_of_fold_update_distinct:
  "distinct (map fst ps) \<Longrightarrow> p \<in> set ps \<Longrightarrow>
     map_of (fold (\<lambda>p. AList.update (fst p) (f p)) ps nodes) (fst p) = Some (f p)"
proof (induction ps arbitrary: nodes)
  case Nil
  then show ?case by simp
next
  case (Cons q ps)
  show ?case
  proof (cases "p = q")
    case True
    then have "fst p \<notin> fst ` set ps" using Cons.prems(1) by auto
    then show ?thesis using True by (simp add: map_of_fold_update_other update_conv')
  next
    case False
    then have "p \<in> set ps" using Cons.prems(2) by simp
    then show ?thesis using Cons.IH Cons.prems(1) by simp
  qed
qed

lemma construct_node_stages:
  assumes "parse_attr (n_attribute node) = Inr attr0"
    and "resolve_inputs (self_nodes self) (n_input node) = Inr inputs"
    and "self_opset self = Some opset"
    and "convert_operator E (self_bb self) (n_op_type node) inputs
           (AList.update ''tvm_custom'' (VCustom (n_name node) (length (n_output node))) attr0)
           opset = (Inr op0, bb1)"
    and "bb_normalize E bb1 op0 = (Inr op1, bb2)"
    and "unpack_outputs E bb2 op1 = (Inr (op, outputs_num), bb3)"
    and "length (n_output node) \<le> outputs_num"
  shows "outputs_num = 1 \<Longrightarrow> n_output node = [k] \<Longrightarrow>
           construct_node E self node =
             (Inr (), self\<lparr>self_bb := bb3, self_nodes := AList.update k op (self_nodes self)\<rparr>)"
    and "outputs_num \<noteq> 1 \<Longrightarrow> op = Tuple fs \<Longrightarrow>
           construct_node E self node =
             (Inr (), self\<lparr>self_bb := bb3,
                self_nodes := fold (\<lambda>p. AList.update (fst p) (fs ! snd p))
                                (zip (n_output node) [0..<length (n_output node)])
                                (self_nodes self)\<rparr>)"
proof -
  show "outputs_num = 1 \<Longrightarrow> n_output node = [k] \<Longrightarrow>
           construct_node E self node =
             (Inr (), self\<lparr>self_bb := bb3, self_nodes := AList.update k op (self_nodes self)\<rparr>)"
    using assms by (simp add: construct_node_def)
  assume n: "outputs_num \<noteq> 1" and t: "op = Tuple fs"
  have len: "length fs = outputs_num"
    using unpack_outputs_tuple [OF assms(6) n] t by auto
  have "\<forall>p\<in>set (zip (n_output node) [0..<length (n_output node)]). snd p < length fs"
    using assms(7) len by (auto simp: set_zip)
  note b = bind_outputs_tuple [OF this, of "self_nodes self"]
  show "construct_node E self node =
             (Inr (), self\<lparr>self_bb := bb3,
                self_nodes := fold (\<lambda>p. AList.update (fst p) (fs ! snd p))
                                (zip (n_output node) [0..<length (n_output node)])
                                (self_nodes self)\<rparr>)"
    using assms n t b by (simp add: construct_node_def)
qed

lemma fold_zip_lookup:
  assumes "distinct ks" and "j < length ks"
  shows "map_of (fold (\<lambda>p. AList.update (fst p) (fs ! snd p)) (zip ks [0..<length ks]) nodes)
           (ks ! j) = Some (fs ! j)"
proof -
  have d: "distinct (map fst (zip ks [0..<length ks]))" using assms(1) by simp
  have m: "(ks ! j, j) \<in> set (zip ks [0..<length ks])"
    using assms(2) by (auto simp: set_zip)
  show ?thesis
    using map_of_fold_update_distinct [OF d m, of "\<lambda>p. fs ! snd p" nodes] by simp
qed

subsection \<open>Claim C6\<close>

text \<open>
  C6, as amended. A name is bound in \<open>_nodes\<close> by plain dict assignment and no
  duplicate-definition error exists. Loading an initializer binds its name to the new
  constant whatever was bound before. For a node whose attributes parse, whose inputs
  resolve, and whose converter, normalization and unpacking succeed with at least as many
  values as declared outputs, construction succeeds whether or not the output names are
  already bound, and it binds by assignment: a single value is bound to the one declared
  output, the fields of a tuple are bound to the declared outputs in order, and each
  output name holds the new value afterwards. Conversely, whenever the construction of a
  node with one declared output succeeds, \<open>_nodes\<close> is the old dict with that name
  assigned. Only a graph input leaves a binding in place: when its name is already bound,
  no variable is created and \<open>_inputs\<close> records the value already bound.
\<close>

theorem symbol_table_binding_overwrites:
  "(\<not> list_all py_isspace (t_name t) \<and> parse_array E t = Inr a \<longrightarrow>
      parse_graph_initializers E self [t] =
        (Inr (), self\<lparr>self_nodes := AList.update (t_name t) (Constant a) (self_nodes self)\<rparr>) \<and>
      map_of (AList.update (t_name t) (Constant a) (self_nodes self)) (t_name t) =
        Some (Constant a)) \<and>
   (parse_attr (n_attribute node) = Inr attr0 \<and>
    resolve_inputs (self_nodes self) (n_input node) = Inr inputs \<and>
    self_opset self = Some opset \<and>
    convert_operator E (self_bb self) (n_op_type node) inputs
      (AList.update ''tvm_custom'' (VCustom (n_name node) (length (n_output node))) attr0)
      opset = (Inr op0, bb1) \<and>
    bb_normalize E bb1 op0 = (Inr op1, bb2) \<and>
    unpack_outputs E bb2 op1 = (Inr (op, outputs_num), bb3) \<and>
    length (n_output node) \<le> outputs_num \<longrightarrow>
      (outputs_num = 1 \<and> n_output node = [k] \<longrightarrow>
         construct_node E self node =
           (Inr (), self\<lparr>self_bb := bb3, self_nodes := AList.update k op (self_nodes self)\<rparr>) \<and>
         map_of (AList.update k op (self_nodes self)) k = Some op) \<and>
      (outputs_num \<noteq> 1 \<longrightarrow>
         (\<exists>fs. op = Tuple fs \<and> length fs = outputs_num \<and>
            construct_node E self node =
              (Inr (), self\<lparr>self_bb := bb3,
                 self_nodes := fold (\<lambda>p. AList.update (fst p) (fs ! snd p))
                                 (zip (n_output node) [0..<length (n_output node)])
                                 (self_nodes self)\<rparr>) \<and>
            (distinct (n_output node) \<longrightarrow>
               (\<forall>j<length (n_output node).
                  map_of (fold (\<lambda>p. AList.update (fst p) (fs ! snd p))
                            (zip (n_output node) [0..<length (n_output node)])
                            (self_nodes self))
                    (n_output node ! j) = Some (fs ! j)))))) \<and>
   (construct_node E self node = (Inr (), self') \<and> n_output node = [k] \<longrightarrow>
      (\<exists>op. self_nodes self' = AList.update k op (self_nodes self) \<and>
            map_of (self_nodes self') k = Some op)) \<and>
   (get_info E i = Inr (name, sh, dt) \<and> map_of (self_nodes self) name = Some v \<longrightarrow>
      parse_graph_input_one E self i =
        (Inr (), self\<lparr>self_inputs := AList.update name v (self_inputs self)\<rparr>))"
proof (intro conjI impI)
  assume "\<not> list_all py_isspace (t_name t) \<and> parse_array E t = Inr a"
  then show "parse_graph_initializers E self [t] =
        (Inr (), self\<lparr>self_nodes := AList.update (t_name t) (Constant a) (self_nodes self)\<rparr>)"
    by simp
  show "map_of (AList.update (t_name t) (Constant a) (self_nodes self)) (t_name t) =
        Some (Constant a)"
    by (simp add: update_conv')
next
  assume st: "parse_attr (n_attribute node) = Inr attr0 \<and>
    resolve_inputs (self_nodes self) (n_input node) = Inr inputs \<and>
    self_opset self = Some opset \<and>
    convert_operator E (self_bb self) (n_op_type node) inputs
      (AList.update ''tvm_custom'' (VCustom (n_name node) (length (n_output node))) attr0)
      opset = (Inr op0, bb1) \<and>
    bb_normalize E bb1 op0 = (Inr op1, bb2) \<and>
    unpack_outputs E bb2 op1 = (Inr (op, outputs_num), bb3) \<and>
    length (n_output node) \<le> outputs_num"
  note s1 = st [THEN conjunct1]
  note s2 = st [THEN conjunct2, THEN conjunct1]
  note s3 = st [THEN conjunct2, THEN conjunct2, THEN conjunct1]
  note s4 = st [THEN conjunct2, THEN conjunct2, THEN conjunct2, THEN conjunct1]
  note s5 = st [THEN conjunct2, THEN conjunct2, THEN conjunct2, THEN conjunct2, THEN conjunct1]
  note s6 = st [THEN conjunct2, THEN conjunct2, THEN conjunct2, THEN conjunct2, THEN conjunct2,
                THEN conjunct1]
  note s7 = st [THEN conjunct2, THEN conjunct2, THEN conjunct2, THEN conjunct2, THEN conjunct2,
                THEN conjunct2]
  {
    assume one: "outputs_num = 1 \<and> n_output node = [k]"
    show "construct_node E self node =
           (Inr (), self\<lparr>self_bb := bb3, self_nodes := AList.update k op (self_nodes self)\<rparr>)"
      using construct_node_stages(1) [OF s1 s2 s3 s4 s5 s6 s7] one by blast
    show "map_of (AList.update k op (self_nodes self)) k = Some op"
      by (simp add: update_conv')
  }
  {
    assume many: "outputs_num \<noteq> 1"
    obtain fs where fs: "op = Tuple fs" "length fs = outputs_num"
      using unpack_outputs_tuple [OF s6 many] by blast
    have c: "construct_node E self node =
              (Inr (), self\<lparr>self_bb := bb3,
                 self_nodes := fold (\<lambda>p. AList.update (fst p) (fs ! snd p))
                                 (zip (n_output node) [0..<length (n_output node)])
                                 (self_nodes self)\<rparr>)"
      by (rule construct_node_stages(2) [OF s1 s2 s3 s4 s5 s6 s7 many fs(1)])
    have l: "distinct (n_output node) \<longrightarrow>
               (\<forall>j<length (n_output node).
                  map_of (fold (\<lambda>p. AList.update (fst p) (fs ! snd p))
                            (zip (n_output node) [0..<length (n_output node)])
                            (self_nodes self))
                    (n_output node ! j) = Some (fs ! j))"
      using fold_zip_lookup by blast
    show "\<exists>fs. op = Tuple fs \<and> length fs = outputs_num \<and>
            construct_node E self node =
              (Inr (), self\<lparr>self_bb := bb3,
                 self_nodes := fold (\<lambda>p. AList.update (fst p) (fs ! snd p))
                                 (zip (n_output node) [0..<length (n_output node)])
                                 (self_nodes self)\<rparr>) \<and>
            (distinct (n_output node) \<longrightarrow>
               (\<forall>j<length (n_output node).
                  map_of (fold (\<lambda>p. AList.update (fst p) (fs ! snd p))
                            (zip (n_output node) [0..<length (n_output node)])
                            (self_nodes self))
                    (n_output node ! j) = Some (fs ! j)))"
      using fs c l by blast
  }
next
  assume h: "construct_node E self node = (Inr (), self') \<and> n_output node = [k]"
  then obtain op where op: "self_nodes self' = AList.update k op (self_nodes self)"
    using construct_node_single_output [of E self node self' k] by blast
  then have "map_of (self_nodes self') k = Some op" by (simp add: update_conv')
  then show "\<exists>op. self_nodes self' = AList.update k op (self_nodes self) \<and>
            map_of (self_nodes self') k = Some op"
    using op by blast
next
  assume "get_info E i = Inr (name, sh, dt) \<and> map_of (self_nodes self) name = Some v"
  then show "parse_graph_input_one E self i =
        (Inr (), self\<lparr>self_inputs := AList.update name v (self_inputs self)\<rparr>)"
    by (simp add: parse_graph_input_one_def)
qed

lemma example_get_info:
  "get_info demo_env (example_info name) = Inr (name, [DimValue 2, DimDyn], Some ''float32'')"
  by (simp add: get_info_def get_type_def example_info_def demo_env_def)

lemma example_parse_array:
  "parse_array demo_env (example_tensor name) = Inr (NDArray ''int64'' [2] [97, 98])"
  by (simp add: parse_array_def get_numpy_def example_tensor_def demo_env_def)

lemma step_identity_rebinds:
  "construct_node demo_env example_bound (example_node ''Identity'' [''w''] [''x''] []) =
   (Inr (), example_bound\<lparr>self_nodes :=
      [(''w'', Constant (NDArray ''int64'' [2] [97, 98])),
       (''x'', Constant (NDArray ''int64'' [2] [97, 98]))]\<rparr>)"
  by (simp add: construct_node_def example_selectors example_bound_fields
        parse_attr_Nil convert_operator_def get_convert_map_def impl_versions_def
        get_converter_single call_impl_def Identity_impl_v1_def getitem_small
        demo_normalize unpack_demo)

lemma get_converter_Split: "get_converter [1, 13] 13 = Inr 13"
  by (simp add: get_converter_def py_getitem_def enumerate_eq_zip)

lemma demo_tuple_env_stages:
  "bb_normalize demo_tuple_env bb (Some e) = (Inr e, bb)"
  "unpack_outputs demo_tuple_env bb (Tuple fs) = (Inr (Tuple fs, length fs), bb)"
  "convert_operator demo_tuple_env bb ''Split'' inputs attr 13 =
     (Inr (Some (Tuple (map the (filter (\<lambda>x. x \<noteq> None) inputs)))), bb)"
  by (simp_all add: demo_tuple_env_def demo_env_def unpack_outputs_def convert_operator_def
        get_convert_map_def impl_versions_def call_impl_def get_converter_Split)

lemma demo_identity_stage:
  "convert_operator demo_env bb ''Identity'' [Some e] attr 13 = (Inr (Some e), bb)"
  by (simp add: convert_operator_def get_convert_map_def impl_versions_def call_impl_def
        get_converter_single Identity_impl_v1_def getitem_small)

text \<open>
  The theorem in the example importer, where w and x are bound: the initializer x replaces
  the variable x, the Identity node with output x replaces it as well, a node whose
  converter returns the tuple of x and w and whose outputs are named w and x swaps the two
  bindings, and the graph input w keeps the constant w.
\<close>

theorem symbol_table_binding_overwrites_witness:
  "\<not> list_all py_isspace (t_name (example_tensor ''x'')) \<and>
   parse_array demo_env (example_tensor ''x'') = Inr (NDArray ''int64'' [2] [97, 98]) \<and>
   map_of (self_nodes example_bound) ''x'' =
     Some (Var ''x'' [DimValue 2, DimDyn] (Some ''float32'')) \<and>
   parse_graph_initializers demo_env example_bound [example_tensor ''x''] =
     (Inr (), example_bound\<lparr>self_nodes :=
        AList.update (t_name (example_tensor ''x'')) (Constant (NDArray ''int64'' [2] [97, 98]))
          (self_nodes example_bound)\<rparr>) \<and>
   map_of (AList.update (t_name (example_tensor ''x'')) (Constant (NDArray ''int64'' [2] [97, 98]))
             (self_nodes example_bound)) (t_name (example_tensor ''x'')) =
     Some (Constant (NDArray ''int64'' [2] [97, 98])) \<and>
   resolve_inputs (self_nodes example_bound)
     (n_input (example_node ''Identity'' [''w''] [''x''] [])) =
     Inr [Some (Constant (NDArray ''int64'' [2] [97, 98]))] \<and>
   unpack_outputs demo_env (self_bb example_bound) (Constant (NDArray ''int64'' [2] [97, 98])) =
     (Inr (Constant (NDArray ''int64'' [2] [97, 98]), 1), self_bb example_bound) \<and>
   construct_node demo_env example_bound (example_node ''Identity'' [''w''] [''x''] []) =
     (Inr (), example_bound\<lparr>self_bb := self_bb example_bound,
        self_nodes := AList.update ''x'' (Constant (NDArray ''int64'' [2] [97, 98]))
                        (self_nodes example_bound)\<rparr>) \<and>
   map_of (AList.update ''x'' (Constant (NDArray ''int64'' [2] [97, 98]))
             (self_nodes example_bound)) ''x'' =
     Some (Constant (NDArray ''int64'' [2] [97, 98])) \<and>
   unpack_outputs demo_tuple_env (self_bb example_bound)
     (Tuple [Var ''x'' [DimValue 2, DimDyn] (Some ''float32''),
             Constant (NDArray ''int64'' [2] [97, 98])]) =
     (Inr (Tuple [Var ''x'' [DimValue 2, DimDyn] (Some ''float32''),
                  Constant (NDArray ''int64'' [2] [97, 98])], 2), self_bb example_bound) \<and>
   construct_node demo_tuple_env example_bound
     (example_node ''Split'' [''x'', ''w''] [''w'', ''x''] []) =
     (Inr (), example_bound\<lparr>self_bb := self_bb example_bound,
        self_nodes := [(''w'', Var ''x'' [DimValue 2, DimDyn] (Some ''float32'')),
                       (''x'', Constant (NDArray ''int64'' [2] [97, 98]))]\<rparr>) \<and>
   n_output (example_node ''Identity'' [''w''] [''x''] []) = [''x''] \<and>
   get_info demo_env (example_info ''w'') = Inr (''w'', [DimValue 2, DimDyn], Some ''float32'') \<and>
   map_of (self_nodes example_bound) ''w'' = Some (Constant (NDArray ''int64'' [2] [97, 98])) \<and>
   parse_graph_input_one demo_env example_bound (example_info ''w'') =
     (Inr (), example_bound\<lparr>self_inputs :=
        AList.update ''w'' (Constant (NDArray ''int64'' [2] [97, 98]))
          (self_inputs example_bound)\<rparr>)"
proof -
  let ?arr = "NDArray ''int64'' [2] [97, 98]"
  let ?vx = "Var ''x'' [DimValue 2, DimDyn] (Some ''float32'')"
  let ?bb = "self_bb example_bound"
  let ?idn = "example_node ''Identity'' [''w''] [''x''] []"
  let ?spl = "example_node ''Split'' [''x'', ''w''] [''w'', ''x''] []"
  let ?s' = "example_bound\<lparr>self_nodes := [(''w'', Constant ?arr), (''x'', Constant ?arr)]\<rparr>"
  note t1 = symbol_table_binding_overwrites
     [where t = "example_tensor ''x''" and E = demo_env and a = ?arr and self = example_bound
        and node = ?idn and ?attr0.0 = "[]" and inputs = "[Some (Constant ?arr)]" and opset = 13
        and ?op0.0 = "Some (Constant ?arr)" and ?bb1.0 = ?bb and ?op1.0 = "Constant ?arr"
        and ?bb2.0 = ?bb and op = "Constant ?arr" and outputs_num = 1 and ?bb3.0 = ?bb
        and k = "''x''" and self' = ?s' and i = "example_info ''w''" and name = "''w''"
        and sh = "[DimValue 2, DimDyn]" and dt = "Some ''float32''" and v = "Constant ?arr"]
  note t2 = symbol_table_binding_overwrites
     [where t = "example_tensor ''x''" and E = demo_tuple_env and a = ?arr
        and self = example_bound
        and node = ?spl and ?attr0.0 = "[]" and inputs = "[Some ?vx, Some (Constant ?arr)]"
        and opset = 13
        and ?op0.0 = "Some (Tuple [?vx, Constant ?arr])" and ?bb1.0 = ?bb
        and ?op1.0 = "Tuple [?vx, Constant ?arr]"
        and ?bb2.0 = ?bb and op = "Tuple [?vx, Constant ?arr]" and outputs_num = 2
        and ?bb3.0 = ?bb]
  have h1: "\<not> list_all py_isspace (t_name (example_tensor ''x''))"
    by (simp add: example_tensor_def py_isspace_def)
  have h2: "parse_array demo_env (example_tensor ''x'') = Inr ?arr" by (rule example_parse_array)
  have h3: "map_of (self_nodes example_bound) ''x'' = Some ?vx"
    by (simp add: example_bound_fields)
  have a1: "parse_attr (n_attribute ?idn) = Inr []" by (simp add: example_selectors parse_attr_Nil)
  have a2: "resolve_inputs (self_nodes example_bound) (n_input ?idn) = Inr [Some (Constant ?arr)]"
    by (simp add: example_selectors example_bound_fields)
  have a3: "self_opset example_bound = Some 13" by (simp add: example_bound_fields)
  have a4: "convert_operator demo_env ?bb (n_op_type ?idn) [Some (Constant ?arr)]
      (AList.update ''tvm_custom'' (VCustom (n_name ?idn) (length (n_output ?idn))) []) 13
      = (Inr (Some (Constant ?arr)), ?bb)"
    by (simp add: example_selectors demo_identity_stage)
  have a5: "bb_normalize demo_env ?bb (Some (Constant ?arr)) = (Inr (Constant ?arr), ?bb)"
    by (rule demo_normalize)
  have a6: "unpack_outputs demo_env ?bb (Constant ?arr) = (Inr (Constant ?arr, 1), ?bb)"
    by (simp add: unpack_demo)
  have a7: "length (n_output ?idn) \<le> 1" by (simp add: example_selectors)
  have a8: "(1::nat) = 1 \<and> n_output ?idn = [''x'']" by (simp add: example_selectors)
  note st1 = conjI [OF a1 conjI [OF a2 conjI [OF a3 conjI [OF a4 conjI [OF a5 conjI [OF a6 a7]]]]]]
  note c2 = t1 [THEN conjunct2, THEN conjunct1, THEN mp, OF st1, THEN conjunct1, THEN mp, OF a8]
  have b1: "parse_attr (n_attribute ?spl) = Inr []" by (simp add: example_selectors parse_attr_Nil)
  have b2: "resolve_inputs (self_nodes example_bound) (n_input ?spl)
              = Inr [Some ?vx, Some (Constant ?arr)]"
    by (simp add: example_selectors example_bound_fields)
  have b4: "convert_operator demo_tuple_env ?bb (n_op_type ?spl) [Some ?vx, Some (Constant ?arr)]
      (AList.update ''tvm_custom'' (VCustom (n_name ?spl) (length (n_output ?spl))) []) 13
      = (Inr (Some (Tuple [?vx, Constant ?arr])), ?bb)"
    by (simp add: example_selectors demo_tuple_env_stages)
  have b5: "bb_normalize demo_tuple_env ?bb (Some (Tuple [?vx, Constant ?arr]))
              = (Inr (Tuple [?vx, Constant ?arr]), ?bb)"
    by (rule demo_tuple_env_stages)
  have b6: "unpack_outputs demo_tuple_env ?bb (Tuple [?vx, Constant ?arr])
              = (Inr (Tuple [?vx, Constant ?arr], 2), ?bb)"
    by (simp add: demo_tuple_env_stages)
  have b7: "length (n_output ?spl) \<le> 2" by (simp add: example_selectors)
  have b8: "(2::nat) \<noteq> 1" by simp
  note st2 = conjI [OF b1 conjI [OF b2 conjI [OF a3 conjI [OF b4 conjI [OF b5 conjI [OF b6 b7]]]]]]
  from t2 [THEN conjunct2, THEN conjunct1, THEN mp, OF st2, THEN conjunct2, THEN mp, OF b8]
  obtain fs where fs: "Tuple [?vx, Constant ?arr] = Tuple fs"
    and cn: "construct_node demo_tuple_env example_bound ?spl =
              (Inr (), example_bound\<lparr>self_bb := ?bb,
                 self_nodes := fold (\<lambda>p. AList.update (fst p) (fs ! snd p))
                                 (zip (n_output ?spl) [0..<length (n_output ?spl)])
                                 (self_nodes example_bound)\<rparr>)"
    by blast
  have "fs = [?vx, Constant ?arr]" using fs by simp
  then have c4: "construct_node demo_tuple_env example_bound ?spl =
     (Inr (), example_bound\<lparr>self_bb := ?bb,
        self_nodes := [(''w'', ?vx), (''x'', Constant ?arr)]\<rparr>)"
    using cn by (simp add: example_selectors example_bound_fields upt_rec)
  have h4: "construct_node demo_env example_bound ?idn = (Inr (), ?s')"
    by (rule step_identity_rebinds)
  have h5: "n_output ?idn = [''x'']" by (simp add: example_selectors)
  have h6: "get_info demo_env (example_info ''w'') =
     Inr (''w'', [DimValue 2, DimDyn], Some ''float32'')" by (rule example_get_info)
  have h7: "map_of (self_nodes example_bound) ''w'' = Some (Constant ?arr)"
    by (simp add: example_bound_fields)
  note c1 = t1 [THEN conjunct1, THEN mp, OF conjI [OF h1 h2]]
  note c5 = t1 [THEN conjunct2, THEN conjunct2, THEN conjunct2, THEN mp, OF conjI [OF h6 h7]]
  show ?thesis
    apply (intro conjI)
    apply (rule h1)
    apply (rule h2)
    apply (rule h3)
    apply (rule c1 [THEN conjunct1])
    apply (rule c1 [THEN conjunct2])
    apply (rule a2)
    apply (rule a6)
    apply (rule c2 [THEN conjunct1])
    apply (rule c2 [THEN conjunct2])
    apply (rule b6)
    apply (rule c4)
    apply (rule h5)
    apply (rule h6)
    apply (rule h7)
    apply (rule c5)
    done
qed

lemma step_constant_rebinds:
  "construct_node demo_env
     (example_importer\<lparr>self_opset := Some 13,
              self_nodes := [(''w'', Constant (NDArray ''int64'' [2] [97, 98]))]\<rparr>)
     (example_node ''Constant'' [] [''w''] [(new_attribute ''value'')\<lparr>a_s := Some ''hi''\<rparr>]) =
   (Inr (), example_importer\<lparr>self_opset := Some 13,
              self_nodes := [(''w'', Constant (NDArray ''int64'' [1] [0]))]\<rparr>)"
proof -
  have pa: "parse_attr [(new_attribute ''value'')\<lparr>a_s := Some ''hi''\<rparr>] =
              Inr [(''value'', VBytes ''hi'')]"
    by (simp add: parse_attr_def parse_attr_one_def parse_scalar_fields_def
          parse_repeated_field_def new_attribute_def)
  show ?thesis
    by (simp add: construct_node_def example_selectors example_importer_def importer_init_def
          pa convert_operator_Constant Constant_impl_v13_def demo_normalize unpack_demo)
qed

text \<open>
  The claim as stated fails: a Constant node whose output is named like the initializer w
  is imported without error, and w is bound to the node's value afterwards.
\<close>

theorem node_output_overwrites_initializer:
  "map_of (self_nodes (snd (parse_graph_initializers demo_env
       (example_importer\<lparr>self_bb := bb_enter_main demo_env (self_bb example_importer),
                          self_opset := Some 13\<rparr>)
       (g_initializer (example_graph [''w''] []
          [example_node ''Constant'' [] [''w''] [(new_attribute ''value'')\<lparr>a_s := Some ''hi''\<rparr>]]
          [''w'']))))) ''w'' = Some (Constant (NDArray ''int64'' [2] [97, 98])) \<and>
   fst (importer_from_onnx demo_env example_importer
     (example_graph [''w''] []
        [example_node ''Constant'' [] [''w''] [(new_attribute ''value'')\<lparr>a_s := Some ''hi''\<rparr>]]
        [''w'']) 13) =
     Inr (IRModule [] [(''gv0'', Constant (NDArray ''int64'' [1] [0]))]
            (Some (Var ''gv0'' [] None))) \<and>
   map_of (self_nodes (snd (importer_from_onnx demo_env example_importer
     (example_graph [''w''] []
        [example_node ''Constant'' [] [''w''] [(new_attribute ''value'')\<lparr>a_s := Some ''hi''\<rparr>]]
        [''w'']) 13))) ''w'' = Some (Constant (NDArray ''int64'' [1] [0]))"
proof -
  let ?node = "example_node ''Constant'' [] [''w''] [(new_attribute ''value'')\<lparr>a_s := Some ''hi''\<rparr>]"
  let ?g = "example_graph [''w''] [] [?node] [''w'']"
  let ?s1 = "example_importer\<lparr>self_opset := Some 13,
              self_nodes := [(''w'', Constant (NDArray ''int64'' [2] [97, 98]))]\<rparr>"
  let ?s3 = "example_importer\<lparr>self_opset := Some 13,
              self_nodes := [(''w'', Constant (NDArray ''int64'' [1] [0]))]\<rparr>"
  have p: "parse_graph_input demo_env ?s1 (g_input ?g) = (Inr (), ?s1)"
    by (simp add: example_graph_def)
  have c: "check_for_unsupported_ops (g_node ?g) = Inr ()"
    by (rule check_supported) (simp add: example_selectors get_convert_map_def)
  have n: "construct_nodes demo_env ?s1 (g_node ?g) = (Inr (), ?s3)"
    by (simp add: example_selectors step_constant_rebinds)
  have o: "lookup_outputs (self_nodes ?s3) (map vi_name (g_output ?g))
             = Inr [Constant (NDArray ''int64'' [1] [0])]"
    by (simp add: example_selectors)
  have e: "bb_emit_output demo_env (self_bb ?s3)
             (wrap_outputs [Constant (NDArray ''int64'' [1] [0])]) =
     (Inr (Var ''gv0'' [] None),
      \<lparr> db_bindings = [(''gv0'', Constant (NDArray ''int64'' [1] [0]))], db_output = None \<rparr>)"
    by (simp add: example_importer_def importer_init_def demo_env_def demo_emit_def
          digit_char_def Let_def)
  note r = import_success [OF example_initializers p c n o e demo_emit_func_output]
  have a: "map_of (self_nodes (snd (parse_graph_initializers demo_env
       (example_importer\<lparr>self_bb := bb_enter_main demo_env (self_bb example_importer),
                          self_opset := Some 13\<rparr>) (g_initializer ?g)))) ''w''
        = Some (Constant (NDArray ''int64'' [2] [97, 98]))"
    by (simp add: example_initializers)
  have b: "fst (importer_from_onnx demo_env example_importer ?g 13) =
     Inr (IRModule [] [(''gv0'', Constant (NDArray ''int64'' [1] [0]))]
            (Some (Var ''gv0'' [] None)))"
    using r by (simp add: demo_get example_importer_def importer_init_def)
  have d: "map_of (self_nodes (snd (importer_from_onnx demo_env example_importer ?g 13))) ''w''
        = Some (Constant (NDArray ''int64'' [1] [0]))"
    using r by simp
  from a b d show ?thesis by (intro conjI)
qed

subsection \<open>Claim C8\<close>

text \<open>
  C8, as amended. With sanitization on and the empty name not yet bound, the first graph
  input named with the empty string gets a variable whose name is the fresh name the name
  supply returns for the prefix \<open>empty_\<close>. A second graph input named with the empty
  string finds the name bound: no name is requested for it, no variable is created, and
  it stays bound to the first input's variable. One input is counted.
\<close>

theorem blank_input_names_share_one_variable:
  assumes "get_info E i1 = Inr ([], sh1, dt1)" and "get_info E i2 = Inr ([], sh2, dt2)"
    and "map_of (self_nodes self) [] = None" and "self_sanitize self"
  shows "parse_graph_input E self [i1, i2] =
    (Inr (),
     self\<lparr>self_num_input := self_num_input self + 1,
          self_input_names := self_input_names self @ [[]],
          self_name_supply := snd (fresh_name E (self_name_supply self) ''empty_''),
          self_nodes :=
            AList.update []
              (Var (fst (fresh_name E (self_name_supply self) ''empty_''))
                 (case map_of (self_shape self) [] of Some sh \<Rightarrow> sh | None \<Rightarrow> sh1)
                 (case self_dtype self of
                    DtypeDict d \<Rightarrow> (case map_of d [] of Some t \<Rightarrow> Some t | None \<Rightarrow> dt1)
                  | DtypeStr t \<Rightarrow> dt1))
              (self_nodes self),
          self_inputs :=
            AList.update []
              (Var (fst (fresh_name E (self_name_supply self) ''empty_''))
                 (case map_of (self_shape self) [] of Some sh \<Rightarrow> sh | None \<Rightarrow> sh1)
                 (case self_dtype self of
                    DtypeDict d \<Rightarrow> (case map_of d [] of Some t \<Rightarrow> Some t | None \<Rightarrow> dt1)
                  | DtypeStr t \<Rightarrow> dt1))
              (self_inputs self)\<rparr>)"
  using assms
  by (simp add: parse_graph_input_one_def Let_def update_conv' split: dtype_arg.splits)

lemma demo_supply:
  "new_name_supply demo_env = []"
  "fresh_name demo_env [] ''empty_'' = (''empty_0'', [(''empty_'', 1)])"
  by (simp_all add: demo_env_def spec_fresh_name_def digit_char_def)

lemma example_blank_inputs:
  "parse_graph_input demo_env example_importer [example_info [], example_info []] =
   (Inr (), example_importer\<lparr>self_num_input := 1, self_input_names := [[]],
              self_name_supply := [(''empty_'', 1)],
              self_nodes := [([], Var ''empty_0'' [DimValue 2, DimDyn] (Some ''float32''))],
              self_inputs := [([], Var ''empty_0'' [DimValue 2, DimDyn] (Some ''float32''))]\<rparr>)"
  by (simp add: parse_graph_input_one_def example_get_info example_importer_def
        importer_init_def demo_supply Let_def)

text \<open>
  The theorem in the example environment, whose name supply is the one modelled from the
  spec: the variable is named \<open>empty_0\<close> and the supply was asked once.
\<close>

theorem blank_input_names_share_one_variable_witness:
  "get_info demo_env (example_info []) = Inr ([], [DimValue 2, DimDyn], Some ''float32'') \<and>
   map_of (self_nodes example_importer) [] = None \<and> self_sanitize example_importer \<and>
   fresh_name demo_env (self_name_supply example_importer) ''empty_'' =
     (''empty_0'', [(''empty_'', 1)]) \<and>
   parse_graph_input demo_env example_importer [example_info [], example_info []] =
   (Inr (), example_importer\<lparr>self_num_input := 1, self_input_names := [[]],
              self_name_supply := [(''empty_'', 1)],
              self_nodes := [([], Var ''empty_0'' [DimValue 2, DimDyn] (Some ''float32''))],
              self_inputs := [([], Var ''empty_0'' [DimValue 2, DimDyn] (Some ''float32''))]\<rparr>)"
proof -
  have h1: "get_info demo_env (example_info []) = Inr ([], [DimValue 2, DimDyn], Some ''float32'')"
    by (rule example_get_info)
  have h3: "map_of (self_nodes example_importer) [] = None"
    by (simp add: example_importer_def importer_init_def)
  have h4: "self_sanitize example_importer"
    by (simp add: example_importer_def importer_init_def)
  have f: "fresh_name demo_env (self_name_supply example_importer) ''empty_'' =
     (''empty_0'', [(''empty_'', 1)])"
    by (simp add: example_importer_def importer_init_def demo_supply)
  note t = blank_input_names_share_one_variable [OF h1 h1 h3 h4]
  have c: "parse_graph_input demo_env example_importer [example_info [], example_info []] =
   (Inr (), example_importer\<lparr>self_num_input := 1, self_input_names := [[]],
              self_name_supply := [(''empty_'', 1)],
              self_nodes := [([], Var ''empty_0'' [DimValue 2, DimDyn] (Some ''float32''))],
              self_inputs := [([], Var ''empty_0'' [DimValue 2, DimDyn] (Some ''float32''))]\<rparr>)"
    using t by (simp add: f) (simp add: example_importer_def importer_init_def)
  from h1 h3 h4 f c show ?thesis by (intro conjI)
qed

text \<open>
  The claim as stated fails: after two graph inputs named with the empty string there is
  one variable, \<open>empty_0\<close>; no second name was drawn from the supply and nothing is
  named \<open>empty_1\<close>.
\<close>

theorem second_blank_input_not_renamed:
  "map snd (self_inputs (snd (parse_graph_input demo_env example_importer
       [example_info [], example_info []]))) =
     [Var ''empty_0'' [DimValue 2, DimDyn] (Some ''float32'')] \<and>
   self_num_input (snd (parse_graph_input demo_env example_importer
       [example_info [], example_info []])) = 1 \<and>
   self_name_supply (snd (parse_graph_input demo_env example_importer
       [example_info [], example_info []])) = [(''empty_'', 1)]"
  unfolding example_blank_inputs by simp

end
